theory Spec2Isabelle
  imports Complex_Main "HOL-Library.Sublist"
begin

section \<open>Values shared by all modules\<close>

text \<open>
  A thrown \<^verbatim>\<open>new Error(message)\<close> is the value \<open>Inl (Error message)\<close> of a result
  type \<open>error + 'a\<close>.  Values of TypeScript type \<^verbatim>\<open>unknown\<close> (decoded payloads, stored
  records, response bodies) are JSON trees; a missing property (\<^verbatim>\<open>undefined\<close>) is \<open>None\<close>.
  The numbers the service handles are milliunit prices, millisecond timestamps and event
  counters: integral and far below \<open>2^53\<close>, where JavaScript's double arithmetic is exact.
  They are modelled as \<open>int\<close>; a value that is not a finite number is an absent one.
  A string is a list of code units.
\<close>

datatype error = Error string

datatype json =
    JNull
  | JBool bool
  | JNum int
  | JStr string
  | JArr "json list"
  | JObj "(string \<times> json) list"

text \<open>Property access \<^verbatim>\<open>value.key\<close> on an \<^verbatim>\<open>unknown\<close> that is not null: only an object
  that is not an array has the named properties the service reads.\<close>

fun getProp :: "json \<Rightarrow> string \<Rightarrow> json option" where
  "getProp (JObj kvs) k = map_of kvs k"
| "getProp _ k = None"

text \<open>\<^verbatim>\<open>typeof v === "object"\<close> for a non-null value.\<close>

fun isObject :: "json \<Rightarrow> bool" where
  "isObject (JObj _) = True"
| "isObject (JArr _) = True"
| "isObject _ = False"

section \<open>Configuration (\<^verbatim>\<open>src/env.ts\<close>)\<close>

definition DEDUPE_TTL_SECONDS :: int where
  "DEDUPE_TTL_SECONDS = 60 * 60 * 24 * 30"

record AppleAppConfig =
  app_bundleId :: "string option"
  app_appAppleId :: int
  app_pushoverUserKey :: string
  app_pushoverDevice :: "string option"

record AppConfig =
  webhookSecret :: string
  pushoverAppToken :: string
  defaultPushoverUserKey :: string
  defaultPushoverDevice :: "string option"
  appleApps :: "AppleAppConfig list"
  appleEnableOnlineChecks :: bool
  appleRootCaDir :: string
  kvRestApiUrl :: string
  kvRestApiToken :: string
  dedupeTtlSeconds :: int

section \<open>The platform and the world outside the process\<close>

text \<open>
  The Apple library's verifier object: \<^verbatim>\<open>verifyAndDecodeNotification\<close> and
  \<^verbatim>\<open>verifyAndDecodeTransaction\<close> either throw or return the decoded payload.
\<close>

datatype Environment = PRODUCTION_ENV | SANDBOX_ENV

record SignedDataVerifier =
  verifyAndDecodeNotification :: "string \<Rightarrow> error + json"
  verifyAndDecodeTransaction :: "string \<Rightarrow> error + json"

record VerifierPair =
  production :: SignedDataVerifier
  sandbox :: SignedDataVerifier

text \<open>
  What the modules call and do not define: the JavaScript built-ins on text
  (\<^verbatim>\<open>JSON.parse\<close>, \<open>None\<close> when it throws; \<^verbatim>\<open>Number(s)\<close> for a string, \<open>None\<close> when the
  result is not finite; \<^verbatim>\<open>Buffer.from(s, "base64url").toString("utf8")\<close>), Node's
  \<^verbatim>\<open>path\<close> and \<^verbatim>\<open>fs\<close> functions with \<^verbatim>\<open>process.cwd()\<close>, and the constructor
  \<^verbatim>\<open>new SignedDataVerifier(rootCAs, enableOnlineChecks, environment, bundleId, appAppleId)\<close>.
\<close>

record runtime =
  jsonParse :: "string \<Rightarrow> json option"
  toNumber :: "string \<Rightarrow> int option"
  base64urlDecode :: "string \<Rightarrow> string"
  cwd :: string
  isAbsolute :: "string \<Rightarrow> bool"
  pathJoin :: "string \<Rightarrow> string \<Rightarrow> string"
  existsSync :: "string \<Rightarrow> bool"
  readdirSync :: "string \<Rightarrow> string list"
  readFileSync :: "string \<Rightarrow> string"
  newSignedDataVerifier ::
    "string list \<Rightarrow> bool \<Rightarrow> Environment \<Rightarrow> string \<Rightarrow> int option \<Rightarrow> SignedDataVerifier"

record LogPayload =
  log_action :: string
  log_notificationUUID :: "string option"
  log_notificationType :: "string option"
  log_environment :: "string option"
  log_error :: "string option"

text \<open>
  The state a request runs against.  The Upstash Redis database reached through
  \<^verbatim>\<open>kvRestApiUrl\<close> is a map from keys to a value and the instant (milliseconds) at which
  the key expires; a key is live strictly before that instant.  \<open>kvOnline\<close> tells whether
  the REST endpoint answers: a call to an endpoint that does not answer rejects.
  \<open>clock\<close> is the current time in milliseconds.  \<open>pushoverReply\<close> is what the Pushover
  API answers to a request (status and body; \<open>None\<close> when \<^verbatim>\<open>fetch\<close> rejects), and
  \<open>pushoverRequests\<close> the forms of the requests made to it so far, one per call of
  \<^verbatim>\<open>fetch\<close>.  \<open>logLines\<close> is the console, and
  \<open>verifierCache\<close> the module's \<^verbatim>\<open>Map\<close> of verifier pairs; its key stands for the
  \<^verbatim>\<open>JSON.stringify\<close> of bundle id, app id, online-check flag and root CA directory.
\<close>

record world =
  clock :: int
  kvOnline :: bool
  kv :: "string \<Rightarrow> (json \<times> int) option"
  pushoverReply :: "(nat \<times> string) option"
  pushoverRequests :: "(string \<times> string) list list"
  logLines :: "LogPayload list"
  verifierCache :: "(string \<times> int \<times> bool \<times> string) \<Rightarrow> VerifierPair option"

type_synonym 'a io = "world \<Rightarrow> (error + 'a) \<times> world"

definition kvLive :: "world \<Rightarrow> string \<Rightarrow> json option" where
  "kvLive w k =
     (case kv w k of
        None \<Rightarrow> None
      | Some (v, expiresAt) \<Rightarrow> if clock w < expiresAt then Some v else None)"

text \<open>\<^verbatim>\<open>redis.get(key)\<close>: the live value, or null.\<close>

definition redisGet :: "string \<Rightarrow> (json option) io" where
  "redisGet k w =
     (if kvOnline w then (Inr (kvLive w k), w)
      else (Inl (Error ''fetch failed''), w))"

text \<open>\<^verbatim>\<open>redis.set(key, value, { ex, nx })\<close>: with \<^verbatim>\<open>nx\<close> the key is written only when it
  is not live, and the reply is \<^verbatim>\<open>"OK"\<close> when the write happened, null otherwise.\<close>

definition redisSet :: "string \<Rightarrow> json \<Rightarrow> int \<Rightarrow> bool \<Rightarrow> (string option) io" where
  "redisSet k v ex nx w =
     (if \<not> kvOnline w then (Inl (Error ''fetch failed''), w)
      else if nx \<and> kvLive w k \<noteq> None then (Inr None, w)
      else (Inr (Some ''OK''), w\<lparr>kv := (kv w)(k \<mapsto> (v, clock w + ex * 1000))\<rparr>))"

section \<open>Dedup ledger (\<^verbatim>\<open>src/dedupeStore.ts\<close>)\<close>

text \<open>\<^verbatim>\<open>getRedisClient\<close> memoises the client object per URL and token; the client is a
  handle on the database of \<open>world\<close> and carries no state of its own.\<close>

definition getDedupeKey :: "string \<Rightarrow> string" where
  "getDedupeKey notificationUUID = ''appstore:notification:'' @ notificationUUID"

definition markNotificationAsNew :: "string \<Rightarrow> AppConfig \<Rightarrow> bool io" where
  "markNotificationAsNew notificationUUID config w =
     (let key = getDedupeKey notificationUUID in
      case redisSet key (JStr ''1'') (dedupeTtlSeconds config) True w of
        (Inl e, w') \<Rightarrow> (Inl e, w')
      | (Inr result, w') \<Rightarrow> (Inr (result = Some ''OK''), w'))"

section \<open>Lifecycle state store (\<^verbatim>\<open>src/subscriptionStateStore.ts\<close>)\<close>

text \<open>
  \<^verbatim>\<open>DecodedTransactionInfo\<close> with every field the modules read: the four fields that
  \<^verbatim>\<open>decodeTransactionInfo\<close> fills, and those the state store and the tests use.
\<close>

record DecodedTransactionInfo =
  tx_productId :: "string option"
  tx_transactionId :: "string option"
  tx_originalTransactionId :: "string option"
  tx_price :: "int option"
  tx_currency :: "string option"
  tx_purchaseDate :: "int option"
  tx_originalPurchaseDate :: "int option"
  tx_offerDiscountType :: "string option"
  tx_transactionReason :: "string option"

definition SUBSCRIPTION_STATE_TTL_SECONDS :: int where
  "SUBSCRIPTION_STATE_TTL_SECONDS = 60 * 60 * 24 * 730"

definition ONE_DAY_IN_MS :: int where
  "ONE_DAY_IN_MS = 24 * 60 * 60 * 1000"

record SubscriptionState =
  sawFreeTrial :: bool
  didRenewCount :: int
  notificationCount :: int
  firstSeenAt :: int
  updatedAt :: int
  firstNotificationType :: string
  lastNotificationType :: string
  originalPurchaseDate :: "int option"
  firstPurchaseDate :: "int option"
  lastPurchaseDate :: "int option"

datatype SubscriptionLifecycleHint = TRIAL_START | FIRST_PAID_AFTER_TRIAL | RENEWAL

definition getSubscriptionStateKey :: "string \<Rightarrow> string" where
  "getSubscriptionStateKey originalTransactionId =
     ''appstore:subscription:'' @ originalTransactionId"

definition optionalFiniteNumber :: "runtime \<Rightarrow> json option \<Rightarrow> int option" where
  "optionalFiniteNumber rt v =
     (case v of
        Some (JNum n) \<Rightarrow> Some n
      | Some (JStr s) \<Rightarrow> toNumber rt s
      | _ \<Rightarrow> None)"

definition optionalString :: "json option \<Rightarrow> string option" where
  \<comment> \<open>\<^verbatim>\<open>typeof v === "string" ? v : undefined\<close>\<close>
  "optionalString v = (case v of Some (JStr s) \<Rightarrow> Some s | _ \<Rightarrow> None)"

definition optionalBoolean :: "json option \<Rightarrow> bool option" where
  "optionalBoolean v = (case v of Some (JBool b) \<Rightarrow> Some b | _ \<Rightarrow> None)"

definition truthyString :: "string option \<Rightarrow> bool" where
  \<comment> \<open>a string that is neither undefined, null nor empty\<close>
  "truthyString s = (case s of None \<Rightarrow> False | Some t \<Rightarrow> t \<noteq> [])"

definition parseSubscriptionState :: "runtime \<Rightarrow> json option \<Rightarrow> SubscriptionState option" where
  "parseSubscriptionState rt raw =
     (case raw of
        None \<Rightarrow> None
      | Some JNull \<Rightarrow> None
      | Some r \<Rightarrow>
          (case (case r of JStr s \<Rightarrow> jsonParse rt s | _ \<Rightarrow> Some r) of
             None \<Rightarrow> None
           | Some parsed \<Rightarrow>
               if \<not> isObject parsed then None
               else
                 let firstSeenAt' = optionalFiniteNumber rt (getProp parsed ''firstSeenAt'');
                     updatedAt' = optionalFiniteNumber rt (getProp parsed ''updatedAt'');
                     didRenewCount' = optionalFiniteNumber rt (getProp parsed ''didRenewCount'');
                     notificationCount' =
                       optionalFiniteNumber rt (getProp parsed ''notificationCount'');
                     firstNotificationType' =
                       optionalString (getProp parsed ''firstNotificationType'');
                     lastNotificationType' =
                       optionalString (getProp parsed ''lastNotificationType'');
                     sawFreeTrial' = optionalBoolean (getProp parsed ''sawFreeTrial'')
                 in
                   if sawFreeTrial' = None \<or> firstSeenAt' = None \<or> updatedAt' = None \<or>
                      didRenewCount' = None \<or> notificationCount' = None \<or>
                      \<not> truthyString firstNotificationType' \<or>
                      \<not> truthyString lastNotificationType'
                   then None
                   else Some
                     \<lparr>sawFreeTrial = the sawFreeTrial',
                      didRenewCount = the didRenewCount',
                      notificationCount = the notificationCount',
                      firstSeenAt = the firstSeenAt',
                      updatedAt = the updatedAt',
                      firstNotificationType = the firstNotificationType',
                      lastNotificationType = the lastNotificationType',
                      originalPurchaseDate =
                        optionalFiniteNumber rt (getProp parsed ''originalPurchaseDate''),
                      firstPurchaseDate =
                        optionalFiniteNumber rt (getProp parsed ''firstPurchaseDate''),
                      lastPurchaseDate =
                        optionalFiniteNumber rt (getProp parsed ''lastPurchaseDate'')\<rparr>))"

definition hasFreeTrial :: "DecodedTransactionInfo option \<Rightarrow> bool" where
  "hasFreeTrial transactionInfo =
     (case transactionInfo of
        None \<Rightarrow> False
      | Some t \<Rightarrow> tx_offerDiscountType t = Some ''FREE_TRIAL'')"

definition isLikelyFirstPaidAfterTrialByDates :: "DecodedTransactionInfo option \<Rightarrow> bool" where
  "isLikelyFirstPaidAfterTrialByDates transactionInfo =
     (case Option.bind transactionInfo tx_purchaseDate of
        None \<Rightarrow> False
      | Some purchaseDate \<Rightarrow>
          (case Option.bind transactionInfo tx_originalPurchaseDate of
             None \<Rightarrow> False
           | Some originalPurchaseDate' \<Rightarrow>
               let deltaMs = purchaseDate - originalPurchaseDate' in
               if deltaMs \<le> 0 then False
               else
                 let deltaDays = (rat_of_int deltaMs) / (rat_of_int ONE_DAY_IN_MS)
                 in deltaDays \<ge> 5 \<and> deltaDays \<le> 14))"

definition determineLifecycleHint ::
  "string \<Rightarrow> DecodedTransactionInfo option \<Rightarrow> SubscriptionState option \<Rightarrow>
   SubscriptionLifecycleHint option" where
  "determineLifecycleHint notificationType transactionInfo previousState =
     (if notificationType = ''SUBSCRIBED'' \<and> hasFreeTrial transactionInfo then Some TRIAL_START
      else if notificationType \<noteq> ''DID_RENEW'' then None
      else
        let didRenewCount' = (case previousState of None \<Rightarrow> 0 | Some p \<Rightarrow> didRenewCount p);
            previousEventWasTrial =
              ((case previousState of None \<Rightarrow> False | Some p \<Rightarrow> sawFreeTrial p) \<and>
               didRenewCount' = 0)
        in
          if previousEventWasTrial \<or> isLikelyFirstPaidAfterTrialByDates transactionInfo
          then Some FIRST_PAID_AFTER_TRIAL
          else Some RENEWAL)"

text \<open>The object literal \<^verbatim>\<open>nextState\<close> of \<^verbatim>\<open>determineSubscriptionLifecycleHint\<close>.\<close>

definition nextState ::
  "string \<Rightarrow> DecodedTransactionInfo option \<Rightarrow> SubscriptionState option \<Rightarrow>
   SubscriptionLifecycleHint option \<Rightarrow> int \<Rightarrow> SubscriptionState" where
  "nextState notificationType transactionInfo previousState lifecycleHint now =
     (let purchaseDate = Option.bind transactionInfo tx_purchaseDate in
      \<lparr>sawFreeTrial =
         ((case previousState of None \<Rightarrow> False | Some p \<Rightarrow> sawFreeTrial p) \<or>
          hasFreeTrial transactionInfo \<or>
          lifecycleHint = Some FIRST_PAID_AFTER_TRIAL),
       didRenewCount =
         (case previousState of None \<Rightarrow> 0 | Some p \<Rightarrow> didRenewCount p) +
         (if notificationType = ''DID_RENEW'' then 1 else 0),
       notificationCount =
         (case previousState of None \<Rightarrow> 0 | Some p \<Rightarrow> notificationCount p) + 1,
       firstSeenAt = (case previousState of None \<Rightarrow> now | Some p \<Rightarrow> firstSeenAt p),
       updatedAt = now,
       firstNotificationType =
         (case previousState of None \<Rightarrow> notificationType | Some p \<Rightarrow> firstNotificationType p),
       lastNotificationType = notificationType,
       originalPurchaseDate =
         (case Option.bind transactionInfo tx_originalPurchaseDate of
            Some d \<Rightarrow> Some d
          | None \<Rightarrow> Option.bind previousState originalPurchaseDate),
       firstPurchaseDate =
         (case Option.bind previousState firstPurchaseDate of
            Some d \<Rightarrow> Some d
          | None \<Rightarrow> purchaseDate),
       lastPurchaseDate =
         (case purchaseDate of
            Some d \<Rightarrow> Some d
          | None \<Rightarrow> Option.bind previousState lastPurchaseDate)\<rparr>)"

text \<open>
  \<^verbatim>\<open>JSON.stringify(nextState)\<close>, as the JSON tree the text denotes: the database holds it
  and \<^verbatim>\<open>redis.get\<close> hands it back.  A property whose value is \<^verbatim>\<open>undefined\<close> is left out.
\<close>

definition optionalEntry :: "string \<Rightarrow> int option \<Rightarrow> (string \<times> json) list" where
  "optionalEntry k v = (case v of None \<Rightarrow> [] | Some n \<Rightarrow> [(k, JNum n)])"

definition stringifyState :: "SubscriptionState \<Rightarrow> json" where
  "stringifyState s =
     JObj ([(''sawFreeTrial'', JBool (sawFreeTrial s)),
            (''didRenewCount'', JNum (didRenewCount s)),
            (''notificationCount'', JNum (notificationCount s)),
            (''firstSeenAt'', JNum (firstSeenAt s)),
            (''updatedAt'', JNum (updatedAt s)),
            (''firstNotificationType'', JStr (firstNotificationType s)),
            (''lastNotificationType'', JStr (lastNotificationType s))]
           @ optionalEntry ''originalPurchaseDate'' (originalPurchaseDate s)
           @ optionalEntry ''firstPurchaseDate'' (firstPurchaseDate s)
           @ optionalEntry ''lastPurchaseDate'' (lastPurchaseDate s))"

definition determineSubscriptionLifecycleHint ::
  "runtime \<Rightarrow> string \<Rightarrow> DecodedTransactionInfo option \<Rightarrow> AppConfig \<Rightarrow>
   (SubscriptionLifecycleHint option) io" where
  "determineSubscriptionLifecycleHint rt notificationType transactionInfo config w =
     (let originalTransactionId = Option.bind transactionInfo tx_originalTransactionId in
      if \<not> truthyString originalTransactionId then (Inr None, w)
      else
        let stateKey = getSubscriptionStateKey (the originalTransactionId) in
        case redisGet stateKey w of
          (Inl e, w1) \<Rightarrow> (Inl e, w1)
        | (Inr existingRaw, w1) \<Rightarrow>
            let previousState = parseSubscriptionState rt existingRaw;
                lifecycleHint =
                  determineLifecycleHint notificationType transactionInfo previousState;
                now = clock w1;
                next = nextState notificationType transactionInfo previousState lifecycleHint now
            in
              (case redisSet stateKey (stringifyState next) SUBSCRIPTION_STATE_TTL_SECONDS False w1 of
                 (Inl e, w2) \<Rightarrow> (Inl e, w2)
               | (Inr _, w2) \<Rightarrow> (Inr lifecycleHint, w2)))"

section \<open>Loading the configuration (\<^verbatim>\<open>src/env.ts\<close>)\<close>

text \<open>
  What the \<^verbatim>\<open>zod\<close> schemas hand to the module: the validated environment
  (\<^verbatim>\<open>z.infer<typeof envSchema>\<close>) and the validated entries of \<^verbatim>\<open>APPLE_APPS_JSON\<close>.
  The two \<^verbatim>\<open>parse\<close> calls belong to the library and are parameters.
\<close>

record AppleAppEntry =
  entry_bundleId :: "string option"
  entry_appAppleId :: int
  entry_pushoverUserKey :: "string option"
  entry_pushoverDevice :: "string option"

record ParsedEnv =
  WEBHOOK_SECRET :: string
  PUSHOVER_APP_TOKEN :: string
  PUSHOVER_USER_KEY :: string
  PUSHOVER_DEVICE :: "string option"
  APPLE_BUNDLE_ID :: "string option"
  APPLE_APP_ID :: "int option"
  APPLE_APPS_JSON :: "string option"
  APPLE_ENABLE_ONLINE_CHECKS :: bool
  APPLE_ROOT_CA_DIR :: string
  KV_REST_API_URL :: string
  KV_REST_API_TOKEN :: string

record schemas =
  envSchema_parse :: "(string \<Rightarrow> string option) \<Rightarrow> error + ParsedEnv"
  appleAppsSchema_parse :: "json \<Rightarrow> error + AppleAppEntry list"

text \<open>The loop over \<^verbatim>\<open>apps\<close> with the set \<^verbatim>\<open>seenBundleIds\<close>.\<close>

fun findDuplicateBundleId :: "AppleAppConfig list \<Rightarrow> string list \<Rightarrow> string option" where
  "findDuplicateBundleId [] seenBundleIds = None"
| "findDuplicateBundleId (app # apps) seenBundleIds =
     (if \<not> truthyString (app_bundleId app) then findDuplicateBundleId apps seenBundleIds
      else if the (app_bundleId app) \<in> set seenBundleIds then app_bundleId app
      else findDuplicateBundleId apps (the (app_bundleId app) # seenBundleIds))"

definition parseAppleApps ::
  "runtime \<Rightarrow> schemas \<Rightarrow> string \<Rightarrow> string \<Rightarrow> string option \<Rightarrow> error + AppleAppConfig list" where
  "parseAppleApps rt sch rawJson defaultUserKey defaultDevice =
     (case jsonParse rt rawJson of
        None \<Rightarrow> Inl (Error ''APPLE_APPS_JSON must be valid JSON.'')
      | Some parsedJson \<Rightarrow>
          (case appleAppsSchema_parse sch parsedJson of
             Inl e \<Rightarrow> Inl e
           | Inr parsedApps \<Rightarrow>
               let apps =
                     map (\<lambda>app.
                            \<lparr>app_bundleId = entry_bundleId app,
                             app_appAppleId = entry_appAppleId app,
                             app_pushoverUserKey =
                               (case entry_pushoverUserKey app of
                                  Some k \<Rightarrow> k
                                | None \<Rightarrow> defaultUserKey),
                             app_pushoverDevice =
                               (case entry_pushoverDevice app of
                                  Some d \<Rightarrow> Some d
                                | None \<Rightarrow> defaultDevice)\<rparr>)
                         parsedApps
               in
                 if length apps > 1 \<and> list_ex (\<lambda>app. \<not> truthyString (app_bundleId app)) apps
                 then Inl (Error ''Each APPLE_APPS_JSON entry must include bundleId when multiple apps are configured.'')
                 else
                   (case findDuplicateBundleId apps [] of
                      Some b \<Rightarrow>
                        Inl (Error (''Duplicate bundleId in APPLE_APPS_JSON: '' @ [CHR 0x27] @ b @
                                    [CHR 0x27] @ ''.''))
                    | None \<Rightarrow> Inr apps)))"

definition buildSingleAppFallback :: "ParsedEnv \<Rightarrow> error + AppleAppConfig list" where
  "buildSingleAppFallback parsed =
     (case APPLE_APP_ID parsed of
        None \<Rightarrow> Inl (Error ''APPLE_APP_ID is required when APPLE_APPS_JSON is not set.'')
      | Some appId \<Rightarrow>
          Inr [\<lparr>app_bundleId = APPLE_BUNDLE_ID parsed,
                app_appAppleId = appId,
                app_pushoverUserKey = PUSHOVER_USER_KEY parsed,
                app_pushoverDevice = PUSHOVER_DEVICE parsed\<rparr>])"

definition loadConfig ::
  "runtime \<Rightarrow> schemas \<Rightarrow> (string \<Rightarrow> string option) \<Rightarrow> error + AppConfig" where
  "loadConfig rt sch env =
     (case envSchema_parse sch env of
        Inl e \<Rightarrow> Inl e
      | Inr parsed \<Rightarrow>
          (case (if truthyString (APPLE_APPS_JSON parsed)
                 then parseAppleApps rt sch (the (APPLE_APPS_JSON parsed))
                        (PUSHOVER_USER_KEY parsed) (PUSHOVER_DEVICE parsed)
                 else buildSingleAppFallback parsed) of
             Inl e \<Rightarrow> Inl e
           | Inr appleApps' \<Rightarrow>
               Inr \<lparr>webhookSecret = WEBHOOK_SECRET parsed,
                    pushoverAppToken = PUSHOVER_APP_TOKEN parsed,
                    defaultPushoverUserKey = PUSHOVER_USER_KEY parsed,
                    defaultPushoverDevice = PUSHOVER_DEVICE parsed,
                    appleApps = appleApps',
                    appleEnableOnlineChecks = APPLE_ENABLE_ONLINE_CHECKS parsed,
                    appleRootCaDir = APPLE_ROOT_CA_DIR parsed,
                    kvRestApiUrl = KV_REST_API_URL parsed,
                    kvRestApiToken = KV_REST_API_TOKEN parsed,
                    dedupeTtlSeconds = DEDUPE_TTL_SECONDS\<rparr>))"

section \<open>Classifier (\<^verbatim>\<open>src/eventClassifier.ts\<close>)\<close>

datatype ClassifiedAction = PURCHASE | REFUND | IGNORE

definition PURCHASE_NOTIFICATION_TYPES :: "string list" where
  "PURCHASE_NOTIFICATION_TYPES = [''SUBSCRIBED'', ''DID_RENEW'', ''ONE_TIME_CHARGE'']"

definition classifyNotificationType :: "string \<Rightarrow> ClassifiedAction" where
  "classifyNotificationType notificationType =
     (if notificationType = ''REFUND'' then REFUND
      else if notificationType \<in> set PURCHASE_NOTIFICATION_TYPES then PURCHASE
      else IGNORE)"

section \<open>Message builder (\<^verbatim>\<open>src/messageBuilder.ts\<close>)\<close>

text \<open>
  The module as it stands with the fields \<^verbatim>\<open>subtype\<close>, \<^verbatim>\<open>transactionReason\<close>,
  \<^verbatim>\<open>offerDiscountType\<close> and \<^verbatim>\<open>subscriptionLifecycle\<close> and the conversion from milliunits
  (the revision that \<^verbatim>\<open>buildPushoverMessage\<close>'s own tests exercise).
\<close>

record MessageInput =
  msg_action :: ClassifiedAction
  msg_appBundleId :: string
  msg_notificationType :: string
  msg_subtype :: "string option"
  msg_environment :: string
  msg_productId :: "string option"
  msg_transactionId :: "string option"
  msg_transactionReason :: "string option"
  msg_offerDiscountType :: "string option"
  msg_subscriptionLifecycle :: "string option"
  msg_price :: "int option"
  msg_currency :: "string option"

record PushoverMessage =
  title :: string
  message :: string

definition shortTransactionId :: "string option \<Rightarrow> string" where
  "shortTransactionId transactionId =
     (if \<not> truthyString transactionId then ''n/a''
      else
        let t = the transactionId in
        if length t \<le> 12 then t
        else take 6 t @ ''...'' @ drop (length t - 4) t)"

text \<open>Decimal digits of a natural number, as \<^verbatim>\<open>String(n)\<close> prints them.\<close>

definition digitChar :: "nat \<Rightarrow> char" where
  "digitChar d = ''0123456789'' ! (d mod 10)"

fun showNat :: "nat \<Rightarrow> string" where
  "showNat n = (if n < 10 then [digitChar n] else showNat (n div 10) @ [digitChar (n mod 10)])"

declare showNat.simps [simp del]

text \<open>
  \<^verbatim>\<open>new Intl.NumberFormat("en-US", { minimumFractionDigits: 0, maximumFractionDigits: 3,
  useGrouping: false }).format(price / 1000)\<close> for an integral \<^verbatim>\<open>price\<close>: the quotient has
  at most three decimals, so nothing is rounded; the integer part is printed without
  grouping, then the decimals without their trailing zeros, and no decimal point when
  there are none.
\<close>

definition fractionDigits :: "nat \<Rightarrow> string" where
  "fractionDigits r =
     (let d1 = r div 100; d2 = (r div 10) mod 10; d3 = r mod 10 in
      if d3 \<noteq> 0 then [digitChar d1, digitChar d2, digitChar d3]
      else if d2 \<noteq> 0 then [digitChar d1, digitChar d2]
      else [digitChar d1])"

definition formatThousandths :: "int \<Rightarrow> string" where
  "formatThousandths price =
     (let n = nat \<bar>price\<bar>; whole = n div 1000; r = n mod 1000 in
      (if price < 0 then ''-'' else []) @ showNat whole @
      (if r = 0 then [] else ''.'' @ fractionDigits r))"

definition formatAmount :: "int option \<Rightarrow> string option \<Rightarrow> string" where
  "formatAmount price currency =
     (case price of
        None \<Rightarrow> ''n/a''
      | Some p \<Rightarrow>
          let formattedAmount = formatThousandths p in
          if truthyString currency then formattedAmount @ '' '' @ the currency
          else formattedAmount)"

text \<open>\<^verbatim>\<open>parts.join(sep)\<close>\<close>

fun join :: "string \<Rightarrow> string list \<Rightarrow> string" where
  "join sep [] = []"
| "join sep [x] = x"
| "join sep (x # y # ys) = x @ sep @ join sep (y # ys)"

definition pushIf :: "string option \<Rightarrow> string \<Rightarrow> string list" where
  \<comment> \<open>\<^verbatim>\<open>if (field) { parts.push(label + field) }\<close>\<close>
  "pushIf field label = (if truthyString field then [label @ the field] else [])"

text \<open>The array \<^verbatim>\<open>parts\<close> of \<^verbatim>\<open>buildPushoverMessage\<close> when the function returns.\<close>

definition messageParts :: "MessageInput \<Rightarrow> string list" where
  "messageParts input =
     (let parts =
            [''app='' @ msg_appBundleId input,
             ''type='' @ msg_notificationType input,
             ''product='' @ (case msg_productId input of None \<Rightarrow> ''n/a'' | Some p \<Rightarrow> p),
             ''env='' @ msg_environment input,
             ''tx='' @ shortTransactionId (msg_transactionId input)]
            @ pushIf (msg_subtype input) ''subtype=''
            @ pushIf (msg_transactionReason input) ''reason=''
            @ pushIf (msg_offerDiscountType input) ''offer=''
            @ pushIf (msg_subscriptionLifecycle input) ''lifecycle='';
          amount = formatAmount (msg_price input) (msg_currency input)
      in parts @ (if amount \<noteq> ''n/a'' then [''amount='' @ amount] else []))"

definition buildPushoverMessage :: "MessageInput \<Rightarrow> PushoverMessage" where
  "buildPushoverMessage input =
     \<lparr>title = (if msg_action input = PURCHASE then ''In-App Kauf'' else ''Refund''),
      message = join '' | '' (messageParts input)\<rparr>"

text \<open>
  The repository's sources also hold \<^verbatim>\<open>src/messageBuilder.ts\<close> in an earlier revision,
  without the four diagnostic fields and with an amount printed as the number comes:
  \<^verbatim>\<open>`${price} ${currency}`\<close>.  \<open>showInt\<close> is \<^verbatim>\<open>String(n)\<close> for an integer.
\<close>

definition showInt :: "int \<Rightarrow> string" where
  "showInt n = (if n < 0 then ''-'' else []) @ showNat (nat \<bar>n\<bar>)"

definition formatAmountUnscaled :: "int option \<Rightarrow> string option \<Rightarrow> string" where
  "formatAmountUnscaled price currency =
     (case price of
        None \<Rightarrow> ''n/a''
      | Some p \<Rightarrow>
          if truthyString currency then showInt p @ '' '' @ the currency
          else showInt p)"

section \<open>Push channel (\<^verbatim>\<open>src/pushover.ts\<close>)\<close>

record PushoverTarget =
  userKey :: "string option"
  device :: "string option"

text \<open>\<^verbatim>\<open>response.ok\<close>: the status is in the range 200 to 299.\<close>

definition responseOk :: "nat \<Rightarrow> bool" where
  "responseOk status = (200 \<le> status \<and> status \<le> 299)"

definition sendPushoverNotification ::
  "AppConfig \<Rightarrow> string \<Rightarrow> string \<Rightarrow> PushoverTarget option \<Rightarrow> unit io" where
  "sendPushoverNotification config title' message' target w =
     (let userKey' =
            (case Option.bind target userKey of
               Some k \<Rightarrow> k
             | None \<Rightarrow> defaultPushoverUserKey config);
          device' =
            (case Option.bind target device of
               Some d \<Rightarrow> Some d
             | None \<Rightarrow> defaultPushoverDevice config);
          body =
            [(''token'', pushoverAppToken config),
             (''user'', userKey'),
             (''title'', title'),
             (''message'', message'),
             (''priority'', ''0'')]
            @ (if truthyString device' then [(''device'', the device')] else []);
          w' = w\<lparr>pushoverRequests := pushoverRequests w @ [body]\<rparr>
      in
        case pushoverReply w of
          None \<Rightarrow> (Inl (Error ''fetch failed''), w')
        | Some (status, responseText) \<Rightarrow>
            if responseOk status then (Inr (), w')
            else
              (Inl (Error (''Pushover API request failed ('' @ showNat status @ ''): '' @
                           responseText)),
               w'))"

text \<open>The Pushover API answers the next request with a success status.\<close>

definition pushoverAccepts :: "world \<Rightarrow> bool" where
  "pushoverAccepts w =
     (case pushoverReply w of
        None \<Rightarrow> False
      | Some (status, responseText) \<Rightarrow> responseOk status)"

section \<open>Verifier resolver and notification decoder (\<^verbatim>\<open>src/appleVerifier.ts\<close>)\<close>

record VerifiedNotification =
  vn_notificationUUID :: string
  vn_notificationType :: string
  vn_subtype :: "string option"
  vn_environment :: string
  vn_bundleId :: string
  vn_appAppleId :: int
  vn_pushoverUserKey :: string
  vn_pushoverDevice :: "string option"
  vn_signedTransactionInfo :: "string option"
  vn_transactionInfo :: "DecodedTransactionInfo option"

definition resolveRootCaDirectory :: "runtime \<Rightarrow> string \<Rightarrow> string" where
  "resolveRootCaDirectory rt rootCaDir =
     (if isAbsolute rt rootCaDir then rootCaDir else pathJoin rt (cwd rt) rootCaDir)"

text \<open>The test \<^verbatim>\<open>/\.(cer|crt|pem|der)$/i\<close> on a file name.\<close>

definition toLowerChar :: "char \<Rightarrow> char" where
  "toLowerChar c =
     (case map_of (zip ''ABCDEFGHIJKLMNOPQRSTUVWXYZ'' ''abcdefghijklmnopqrstuvwxyz'') c of
        Some l \<Rightarrow> l
      | None \<Rightarrow> c)"

definition endsWith :: "string \<Rightarrow> string \<Rightarrow> bool" where
  "endsWith s e = (length e \<le> length s \<and> drop (length s - length e) s = e)"

definition hasCertExtension :: "string \<Rightarrow> bool" where
  "hasCertExtension file =
     list_ex (endsWith (map toLowerChar file)) [''.cer'', ''.crt'', ''.pem'', ''.der'']"

definition loadAppleRootCAs :: "runtime \<Rightarrow> string \<Rightarrow> error + string list" where
  "loadAppleRootCAs rt rootCaDir =
     (let absoluteDir = resolveRootCaDirectory rt rootCaDir in
      if \<not> existsSync rt absoluteDir then
        Inl (Error (''Apple root CA directory not found: '' @ absoluteDir @
                    ''. Add Apple root certificates to this folder.''))
      else
        let certFiles = filter hasCertExtension (readdirSync rt absoluteDir) in
        if length certFiles = 0 then
          Inl (Error (''No Apple root certificates found in '' @ absoluteDir @
                      ''. Add .cer/.crt/.pem/.der files.''))
        else Inr (map (\<lambda>file. readFileSync rt (pathJoin rt absoluteDir file)) certFiles))"

definition getVerifierCacheKey ::
  "runtime \<Rightarrow> AppConfig \<Rightarrow> string \<Rightarrow> int \<Rightarrow> string \<times> int \<times> bool \<times> string" where
  "getVerifierCacheKey rt config bundleId appAppleId =
     (bundleId, appAppleId, appleEnableOnlineChecks config,
      resolveRootCaDirectory rt (appleRootCaDir config))"

definition createVerifiers ::
  "runtime \<Rightarrow> AppConfig \<Rightarrow> string \<Rightarrow> int \<Rightarrow> error + VerifierPair" where
  "createVerifiers rt config bundleId appAppleId =
     (case loadAppleRootCAs rt (appleRootCaDir config) of
        Inl e \<Rightarrow> Inl e
      | Inr rootCAs \<Rightarrow>
          Inr \<lparr>production =
                 newSignedDataVerifier rt rootCAs (appleEnableOnlineChecks config)
                   PRODUCTION_ENV bundleId (Some appAppleId),
               sandbox =
                 newSignedDataVerifier rt rootCAs (appleEnableOnlineChecks config)
                   SANDBOX_ENV bundleId None\<rparr>)"

definition getVerifiers :: "runtime \<Rightarrow> AppConfig \<Rightarrow> string \<Rightarrow> int \<Rightarrow> VerifierPair io" where
  "getVerifiers rt config bundleId appAppleId w =
     (let cacheKey = getVerifierCacheKey rt config bundleId appAppleId in
      case verifierCache w cacheKey of
        Some cached \<Rightarrow> (Inr cached, w)
      | None \<Rightarrow>
          (case createVerifiers rt config bundleId appAppleId of
             Inl e \<Rightarrow> (Inl e, w)
           | Inr created \<Rightarrow>
               (Inr created, w\<lparr>verifierCache := (verifierCache w)(cacheKey \<mapsto> created)\<rparr>)))"

definition ensureString :: "json option \<Rightarrow> string \<Rightarrow> error + string" where
  "ensureString v field =
     (case v of
        Some (JStr s) \<Rightarrow>
          if length s = 0
          then Inl (Error (''Apple payload is missing required field '' @ [CHR 0x27] @ field @
                           [CHR 0x27] @ ''.''))
          else Inr s
      | _ \<Rightarrow> Inl (Error (''Apple payload is missing required field '' @ [CHR 0x27] @ field @
                           [CHR 0x27] @ ''.'')))"

text \<open>\<^verbatim>\<open>String.prototype.trim\<close> on the code units below 256.\<close>

definition isWhiteSpace :: "char \<Rightarrow> bool" where
  "isWhiteSpace c =
     (c \<in> set [CHR 0x09, CHR 0x0A, CHR 0x0B, CHR 0x0C, CHR 0x0D, CHR 0x20, CHR 0xA0])"

definition trim :: "string \<Rightarrow> string" where
  "trim s = rev (dropWhile isWhiteSpace (rev (dropWhile isWhiteSpace s)))"

definition optionalNonEmptyString :: "json option \<Rightarrow> string option" where
  "optionalNonEmptyString v =
     (case v of
        Some (JStr s) \<Rightarrow> (let trimmed = trim s in if length trimmed > 0 then Some trimmed else None)
      | _ \<Rightarrow> None)"

definition ensureNotificationPayload :: "json \<Rightarrow> error + json" where
  "ensureNotificationPayload v =
     (if \<not> isObject v then Inl (Error ''Apple notification payload is not an object.'')
      else Inr v)"

definition ensureBundleIdMatches :: "string option \<Rightarrow> string \<Rightarrow> error + unit" where
  "ensureBundleIdMatches expectedBundleId bundleId =
     (if truthyString expectedBundleId \<and> bundleId \<noteq> the expectedBundleId then
        Inl (Error (''Bundle ID mismatch. Expected '' @ [CHR 0x27] @ the expectedBundleId @
                    [CHR 0x27] @ '' but got '' @ [CHR 0x27] @ bundleId @ [CHR 0x27] @ ''.''))
      else Inr ())"

text \<open>\<^verbatim>\<open>s.split(c)\<close> for a one-character separator.\<close>

fun splitOn :: "char \<Rightarrow> string \<Rightarrow> string list" where
  "splitOn c [] = [[]]"
| "splitOn c (x # xs) =
     (if x = c then [] # splitOn c xs
      else (case splitOn c xs of
              [] \<Rightarrow> [[x]]
            | p # ps \<Rightarrow> (x # p) # ps))"

text \<open>The object under \<^verbatim>\<open>payload.data\<close>, when there is one.\<close>

definition dataObject :: "json \<Rightarrow> json option" where
  "dataObject payload =
     (case getProp payload ''data'' of
        Some d \<Rightarrow> if isObject d then Some d else None
      | None \<Rightarrow> None)"

definition extractBundleIdFromSignedPayload :: "runtime \<Rightarrow> string \<Rightarrow> string option" where
  "extractBundleIdFromSignedPayload rt signedPayload =
     (let parts = splitOn (CHR ''.'') signedPayload in
      if length parts < 2 then None
      else
        case jsonParse rt (base64urlDecode rt (parts ! 1)) of
          None \<Rightarrow> None
        | Some JNull \<Rightarrow> None
        | Some payload \<Rightarrow>
            (case optionalNonEmptyString (getProp payload ''bundleId'') of
               Some topLevelBundleId \<Rightarrow> Some topLevelBundleId
             | None \<Rightarrow>
                 (case dataObject payload of
                    Some d \<Rightarrow> optionalNonEmptyString (getProp d ''bundleId'')
                  | None \<Rightarrow> None)))"

definition decodeTransactionInfo ::
  "runtime \<Rightarrow> SignedDataVerifier \<Rightarrow> string option \<Rightarrow> error + DecodedTransactionInfo option" where
  "decodeTransactionInfo rt verifier signedTransactionInfo =
     (if \<not> truthyString signedTransactionInfo then Inr None
      else
        case verifyAndDecodeTransaction verifier (the signedTransactionInfo) of
          Inl e \<Rightarrow> Inl e
        | Inr JNull \<Rightarrow> Inl (Error ''Cannot read properties of null'')
        | Inr decoded \<Rightarrow>
            Inr (Some
              \<lparr>tx_productId = optionalString (getProp decoded ''productId''),
               tx_transactionId = optionalString (getProp decoded ''transactionId''),
               tx_originalTransactionId = None,
               tx_price = optionalFiniteNumber rt (getProp decoded ''price''),
               tx_currency = optionalString (getProp decoded ''currency''),
               tx_purchaseDate = None,
               tx_originalPurchaseDate = None,
               tx_offerDiscountType = None,
               tx_transactionReason = None\<rparr>))"

text \<open>The body of the \<^verbatim>\<open>try\<close> block of the inner loop: verify and decode the notification
  with one verifier, and require an object.\<close>

definition attempt :: "SignedDataVerifier \<Rightarrow> string \<Rightarrow> error + json" where
  "attempt verifier signedPayload =
     (case verifyAndDecodeNotification verifier signedPayload of
        Inl e \<Rightarrow> Inl e
      | Inr raw \<Rightarrow> ensureNotificationPayload raw)"

text \<open>The inner loop over \<^verbatim>\<open>[verifiers.production, verifiers.sandbox]\<close>: the first verifier
  whose attempt succeeds ends the loop; an attempt that throws leaves its error in
  \<^verbatim>\<open>lastError\<close>.\<close>

fun tryVerifiers ::
  "SignedDataVerifier list \<Rightarrow> string \<Rightarrow> error option \<Rightarrow>
   (json \<times> SignedDataVerifier) option \<times> error option" where
  "tryVerifiers [] signedPayload lastError = (None, lastError)"
| "tryVerifiers (verifier # rest) signedPayload lastError =
     (case attempt verifier signedPayload of
        Inl e \<Rightarrow> tryVerifiers rest signedPayload (Some e)
      | Inr decodedPayload \<Rightarrow> (Some (decodedPayload, verifier), lastError))"

text \<open>The bundle id of a decoded payload: \<^verbatim>\<open>payload.bundleId\<close>, or else
  \<^verbatim>\<open>payload.data.bundleId\<close>.\<close>

definition payloadBundleId :: "json \<Rightarrow> string option" where
  "payloadBundleId decodedPayload =
     (case optionalNonEmptyString (getProp decodedPayload ''bundleId'') of
        Some b \<Rightarrow> Some b
      | None \<Rightarrow>
          optionalNonEmptyString
            (Option.bind (dataObject decodedPayload) (\<lambda>d. getProp d ''bundleId'')))"

text \<open>The rest of the outer loop's body, once a verifier has decoded the payload.\<close>

definition decodeNotification ::
  "runtime \<Rightarrow> AppleAppConfig \<Rightarrow> json \<Rightarrow> SignedDataVerifier \<Rightarrow> error + VerifiedNotification" where
  "decodeNotification rt app decodedPayload usedVerifier =
     (case ensureString (getProp decodedPayload ''notificationUUID'') ''notificationUUID'' of
        Inl e \<Rightarrow> Inl e
      | Inr notificationUUID \<Rightarrow>
     (case ensureString (getProp decodedPayload ''notificationType'') ''notificationType'' of
        Inl e \<Rightarrow> Inl e
      | Inr notificationType \<Rightarrow>
     (let data = dataObject decodedPayload;
          bundleId = payloadBundleId decodedPayload
      in
     (case bundleId of
        None \<Rightarrow>
          Inl (Error (''Apple payload is missing required field '' @ [CHR 0x27] @ ''bundleId'' @
                      [CHR 0x27] @ '' (expected at payload.bundleId or payload.data.bundleId).''))
      | Some bundleId' \<Rightarrow>
     (case ensureBundleIdMatches (app_bundleId app) bundleId' of
        Inl e \<Rightarrow> Inl e
      | Inr _ \<Rightarrow>
     (let signedTransactionInfo =
            optionalString (Option.bind data (\<lambda>d. getProp d ''signedTransactionInfo''))
      in
     (case decodeTransactionInfo rt usedVerifier signedTransactionInfo of
        Inl e \<Rightarrow> Inl e
      | Inr transactionInfo \<Rightarrow>
          Inr \<lparr>vn_notificationUUID = notificationUUID,
               vn_notificationType = notificationType,
               vn_subtype = optionalString (getProp decodedPayload ''subtype''),
               vn_environment =
                 (case optionalNonEmptyString (getProp decodedPayload ''environment'') of
                    Some e \<Rightarrow> e
                  | None \<Rightarrow>
                      (case optionalNonEmptyString
                              (Option.bind data (\<lambda>d. getProp d ''environment'')) of
                         Some e \<Rightarrow> e
                       | None \<Rightarrow> ''UNKNOWN'')),
               vn_bundleId = bundleId',
               vn_appAppleId = app_appAppleId app,
               vn_pushoverUserKey = app_pushoverUserKey app,
               vn_pushoverDevice = app_pushoverDevice app,
               vn_signedTransactionInfo = signedTransactionInfo,
               vn_transactionInfo = transactionInfo\<rparr>)))))))"

text \<open>
  One iteration of the outer loop \<^verbatim>\<open>for (const app of config.appleApps)\<close>: it ends with
  \<^verbatim>\<open>continue\<close> (with the new \<^verbatim>\<open>lastError\<close>), or it leaves the function, returning a
  notification or throwing.
\<close>

datatype iteration =
    Continue "error option" world
  | Leave "error + VerifiedNotification" world

definition tryApp ::
  "runtime \<Rightarrow> string \<Rightarrow> AppConfig \<Rightarrow> AppleAppConfig \<Rightarrow> error option \<Rightarrow> world \<Rightarrow> iteration" where
  "tryApp rt signedPayload config app lastError w =
     (let bundleIdForVerifier =
            (case app_bundleId app of
               Some b \<Rightarrow> Some b
             | None \<Rightarrow> extractBundleIdFromSignedPayload rt signedPayload)
      in
        if \<not> truthyString bundleIdForVerifier then
          Continue
            (Some (Error ''Could not determine bundleId for verification. Set APPLE_BUNDLE_ID or provide bundleId in APPLE_APPS_JSON.''))
            w
        else
          (case getVerifiers rt config (the bundleIdForVerifier) (app_appAppleId app) w of
             (Inl e, w1) \<Rightarrow> Leave (Inl e) w1
           | (Inr verifiers, w1) \<Rightarrow>
               (case tryVerifiers [production verifiers, sandbox verifiers] signedPayload lastError of
                  (None, lastError') \<Rightarrow> Continue lastError' w1
                | (Some (decodedPayload, usedVerifier), lastError') \<Rightarrow>
                    Leave (decodeNotification rt app decodedPayload usedVerifier) w1)))"

fun verifyLoop ::
  "runtime \<Rightarrow> string \<Rightarrow> AppConfig \<Rightarrow> AppleAppConfig list \<Rightarrow> error option \<Rightarrow>
   VerifiedNotification io" where
  "verifyLoop rt signedPayload config [] lastError w =
     (case lastError of
        Some e \<Rightarrow> (Inl e, w)
      | None \<Rightarrow> (Inl (Error ''Unable to verify Apple signed payload.''), w))"
| "verifyLoop rt signedPayload config (app # apps) lastError w =
     (case tryApp rt signedPayload config app lastError w of
        Continue lastError' w' \<Rightarrow> verifyLoop rt signedPayload config apps lastError' w'
      | Leave result w' \<Rightarrow> (result, w'))"

definition verifyAppleNotification ::
  "runtime \<Rightarrow> string \<Rightarrow> AppConfig \<Rightarrow> VerifiedNotification io" where
  "verifyAppleNotification rt signedPayload config w =
     verifyLoop rt signedPayload config (appleApps config) None w"

text \<open>
  The state in which the outer loop arrives behind the tenants \<open>apps\<close>: \<^verbatim>\<open>lastError\<close> and
  the world after their iterations, when each of them ended with \<^verbatim>\<open>continue\<close>; \<open>None\<close>
  when one of them left the function.
\<close>

fun passOver ::
  "runtime \<Rightarrow> string \<Rightarrow> AppConfig \<Rightarrow> AppleAppConfig list \<Rightarrow> error option \<Rightarrow> world \<Rightarrow>
   (error option \<times> world) option" where
  "passOver rt signedPayload config [] lastError w = Some (lastError, w)"
| "passOver rt signedPayload config (app # apps) lastError w =
     (case tryApp rt signedPayload config app lastError w of
        Continue lastError' w' \<Rightarrow> passOver rt signedPayload config apps lastError' w'
      | Leave result w' \<Rightarrow> None)"

section \<open>Pipeline orchestrator (\<^verbatim>\<open>src/webhookHandler.ts\<close>)\<close>

record WebhookRequest =
  req_method :: "string option"
  req_body :: "json option"
  req_query :: "(string \<times> json) list option"

text \<open>What the handler leaves in the response object: the header it sets, and the status
  and body of \<^verbatim>\<open>response.status(code).json(body)\<close>.\<close>

record WebhookResponse =
  headers :: "(string \<times> string) list"
  statusCode :: nat
  jsonBody :: json

record WebhookDependencies =
  dep_loadConfig :: "error + AppConfig"
  dep_verifyNotification :: "string \<Rightarrow> AppConfig \<Rightarrow> VerifiedNotification io"
  dep_markNotificationAsNew :: "string \<Rightarrow> AppConfig \<Rightarrow> bool io"
  dep_sendPushover :: "AppConfig \<Rightarrow> string \<Rightarrow> string \<Rightarrow> PushoverTarget option \<Rightarrow> unit io"
  dep_log :: "LogPayload \<Rightarrow> world \<Rightarrow> world"

text \<open>The default \<^verbatim>\<open>log\<close>: \<^verbatim>\<open>console.log(JSON.stringify(payload))\<close>.\<close>

definition consoleLog :: "LogPayload \<Rightarrow> world \<Rightarrow> world" where
  "consoleLog payload w = w\<lparr>logLines := logLines w @ [payload]\<rparr>"

definition defaultDependencies ::
  "runtime \<Rightarrow> schemas \<Rightarrow> (string \<Rightarrow> string option) \<Rightarrow> WebhookDependencies" where
  "defaultDependencies rt sch env =
     \<lparr>dep_loadConfig = loadConfig rt sch env,
      dep_verifyNotification = verifyAppleNotification rt,
      dep_markNotificationAsNew = markNotificationAsNew,
      dep_sendPushover = sendPushoverNotification,
      dep_log = consoleLog\<rparr>"

definition readQueryParam :: "(string \<times> json) list option \<Rightarrow> string \<Rightarrow> string option" where
  "readQueryParam query key =
     (case Option.bind query (\<lambda>q. map_of q key) of
        Some (JStr s) \<Rightarrow> Some s
      | Some (JArr (JStr s # rest)) \<Rightarrow> Some s
      | _ \<Rightarrow> None)"

text \<open>The \<^verbatim>\<open>signedPayload\<close> property of an object body, when it is a string with
  something besides white space.\<close>

definition signedPayloadOf :: "json \<Rightarrow> string option" where
  "signedPayloadOf body =
     (case getProp body ''signedPayload'' of
        Some (JStr payload) \<Rightarrow> if length (trim payload) > 0 then Some payload else None
      | _ \<Rightarrow> None)"

text \<open>
  \<^verbatim>\<open>getSignedPayload\<close> calls itself on \<^verbatim>\<open>JSON.parse(body)\<close> when the body is a string.
  The outer \<open>option\<close> is \<open>None\<close> when the recursion does not end; the inner one is the
  function's \<^verbatim>\<open>string | null\<close>.
\<close>

partial_function (option) getSignedPayload :: "runtime \<Rightarrow> json option \<Rightarrow> string option option" where
  "getSignedPayload rt body =
     (case body of
        None \<Rightarrow> Some None
      | Some b \<Rightarrow>
          (case b of
             JStr s \<Rightarrow>
               (case jsonParse rt s of
                  None \<Rightarrow> Some None
                | Some v \<Rightarrow> getSignedPayload rt (Some v))
           | JNull \<Rightarrow> Some None
           | JBool x \<Rightarrow> Some None
           | JNum n \<Rightarrow> Some None
           | JArr xs \<Rightarrow> Some (signedPayloadOf b)
           | JObj kvs \<Rightarrow> Some (signedPayloadOf b)))"

definition responseJson :: "nat \<Rightarrow> json \<Rightarrow> WebhookResponse" where
  "responseJson code body =
     \<lparr>headers = [(''Cache-Control'', ''no-store'')], statusCode = code, jsonBody = body\<rparr>"

definition buildLogPayload :: "string \<Rightarrow> VerifiedNotification \<Rightarrow> error option \<Rightarrow> LogPayload" where
  "buildLogPayload action verified err =
     \<lparr>log_action = action,
      log_notificationUUID = Some (vn_notificationUUID verified),
      log_notificationType = Some (vn_notificationType verified),
      log_environment = Some (vn_environment verified),
      log_error = (case err of Some (Error m) \<Rightarrow> Some m | None \<Rightarrow> None)\<rparr>"

definition errorLog :: "error \<Rightarrow> LogPayload" where
  \<comment> \<open>\<^verbatim>\<open>{ action: "error", error: error.message }\<close>\<close>
  "errorLog e =
     \<lparr>log_action = ''error'', log_notificationUUID = None, log_notificationType = None,
      log_environment = None, log_error = (case e of Error m \<Rightarrow> Some m)\<rparr>"

text \<open>The handler from the classification on (lines 166 to 205), for a verified
  notification.\<close>

definition handleVerified ::
  "WebhookDependencies \<Rightarrow> AppConfig \<Rightarrow> VerifiedNotification \<Rightarrow> world \<Rightarrow> WebhookResponse \<times> world" where
  "handleVerified deps config verified w =
     (let eventAction = classifyNotificationType (vn_notificationType verified) in
      if eventAction = IGNORE then
        (responseJson 200 (JObj [(''ok'', JBool True), (''ignored'', JBool True)]),
         dep_log deps (buildLogPayload ''ignored'' verified None) w)
      else
        (case dep_markNotificationAsNew deps (vn_notificationUUID verified) config w of
           (Inl e, w1) \<Rightarrow>
             (responseJson 500 (JObj [(''ok'', JBool False), (''error'', JStr ''internal_error'')]),
              dep_log deps (buildLogPayload ''error'' verified (Some e)) w1)
         | (Inr isNew, w1) \<Rightarrow>
             (if \<not> isNew then
                (responseJson 200 (JObj [(''ok'', JBool True), (''deduped'', JBool True)]),
                 dep_log deps (buildLogPayload ''deduped'' verified None) w1)
              else
                (let message' =
                       buildPushoverMessage
                         \<lparr>msg_action = eventAction,
                          msg_appBundleId = vn_bundleId verified,
                          msg_notificationType = vn_notificationType verified,
                          msg_subtype = None,
                          msg_environment = vn_environment verified,
                          msg_productId = Option.bind (vn_transactionInfo verified) tx_productId,
                          msg_transactionId =
                            Option.bind (vn_transactionInfo verified) tx_transactionId,
                          msg_transactionReason = None,
                          msg_offerDiscountType = None,
                          msg_subscriptionLifecycle = None,
                          msg_price = Option.bind (vn_transactionInfo verified) tx_price,
                          msg_currency = Option.bind (vn_transactionInfo verified) tx_currency\<rparr>
                 in
                   (case dep_sendPushover deps config (title message') (message message')
                           (Some \<lparr>userKey = Some (vn_pushoverUserKey verified),
                                   device = vn_pushoverDevice verified\<rparr>) w1 of
                      (Inl e, w2) \<Rightarrow>
                        (responseJson 500
                           (JObj [(''ok'', JBool False), (''error'', JStr ''internal_error'')]),
                         dep_log deps (buildLogPayload ''error'' verified (Some e)) w2)
                    | (Inr u, w2) \<Rightarrow>
                        (responseJson 200 (JObj [(''ok'', JBool True)]),
                         dep_log deps (buildLogPayload ''pushed'' verified None) w2))))))"

definition webhookHandler ::
  "runtime \<Rightarrow> WebhookDependencies \<Rightarrow> WebhookRequest \<Rightarrow> world \<Rightarrow>
   (WebhookResponse \<times> world) option" where
  "webhookHandler rt deps request w =
     (if req_method request \<noteq> Some ''POST'' then
        Some (responseJson 405 (JObj [(''ok'', JBool False), (''error'', JStr ''method_not_allowed'')]), w)
      else
        (case dep_loadConfig deps of
           Inl e \<Rightarrow>
             Some (responseJson 500
                     (JObj [(''ok'', JBool False), (''error'', JStr ''invalid_configuration'')]),
                   dep_log deps (errorLog e) w)
         | Inr config \<Rightarrow>
             (if readQueryParam (req_query request) ''secret'' \<noteq> Some (webhookSecret config) then
                Some (responseJson 404 (JObj [(''ok'', JBool False), (''error'', JStr ''not_found'')]), w)
              else
                (case getSignedPayload rt (req_body request) of
                   None \<Rightarrow> None
                 | Some None \<Rightarrow>
                     Some (responseJson 400
                             (JObj [(''ok'', JBool False), (''error'', JStr ''invalid_payload'')]), w)
                 | Some (Some signedPayload) \<Rightarrow>
                     (case dep_verifyNotification deps signedPayload config w of
                        (Inl e, w1) \<Rightarrow>
                          Some (responseJson 400
                                  (JObj [(''ok'', JBool False), (''error'', JStr ''invalid_signature'')]),
                                dep_log deps (errorLog e) w1)
                      | (Inr verified, w1) \<Rightarrow> Some (handleVerified deps config verified w1))))))"

section \<open>Fixtures of the test suites\<close>

text \<open>\<^verbatim>\<open>createConfig()\<close> of \<^verbatim>\<open>tests/webhook.test.ts\<close> and
  \<^verbatim>\<open>tests/subscriptionStateStore.test.ts\<close>.\<close>

definition createConfig :: AppConfig where
  "createConfig =
     \<lparr>webhookSecret = ''super-secret'',
      pushoverAppToken = ''pushover-app-token'',
      defaultPushoverUserKey = ''pushover-user-key'',
      defaultPushoverDevice = None,
      appleApps =
        [\<lparr>app_bundleId = Some ''com.example.app'',
          app_appAppleId = 1234567890,
          app_pushoverUserKey = ''pushover-user-key'',
          app_pushoverDevice = None\<rparr>],
      appleEnableOnlineChecks = False,
      appleRootCaDir = ''certs/apple'',
      kvRestApiUrl = ''https://example.upstash.io'',
      kvRestApiToken = ''upstash-token'',
      dedupeTtlSeconds = 2592000\<rparr>"

text \<open>A world at instant \<open>t\<close> with an empty database (the \<^verbatim>\<open>kvStore.clear()\<close> of the
  state store's tests), services that answer, and nothing pushed, logged or cached.\<close>

definition freshWorld :: "int \<Rightarrow> world" where
  "freshWorld t =
     \<lparr>clock = t,
      kvOnline = True,
      kv = (\<lambda>k. None),
      pushoverReply = Some (200, ''{\"status\":1}''),
      pushoverRequests = [],
      logLines = [],
      verifierCache = (\<lambda>k. None)\<rparr>"

text \<open>A transaction info object with no property set.\<close>

definition noTransactionInfo :: DecodedTransactionInfo where
  "noTransactionInfo =
     \<lparr>tx_productId = None, tx_transactionId = None, tx_originalTransactionId = None,
      tx_price = None, tx_currency = None, tx_purchaseDate = None,
      tx_originalPurchaseDate = None, tx_offerDiscountType = None,
      tx_transactionReason = None\<rparr>"

text \<open>The notifications that the mocked \<^verbatim>\<open>verifyNotification\<close> resolves to in
  \<^verbatim>\<open>tests/webhook.test.ts\<close>: the default one, the renewal of the lifecycle test and the
  ignored one.\<close>

definition verifiedSubscribed :: VerifiedNotification where
  "verifiedSubscribed =
     \<lparr>vn_notificationUUID = ''uuid-1'',
      vn_notificationType = ''SUBSCRIBED'',
      vn_subtype = None,
      vn_environment = ''Sandbox'',
      vn_bundleId = ''com.example.app'',
      vn_appAppleId = 1234567890,
      vn_pushoverUserKey = ''pushover-user-key'',
      vn_pushoverDevice = None,
      vn_signedTransactionInfo = None,
      vn_transactionInfo =
        Some (noTransactionInfo\<lparr>tx_productId := Some ''pro_monthly'',
                                 tx_transactionId := Some ''1000001234567890''\<rparr>)\<rparr>"

definition verifiedRenew :: VerifiedNotification where
  "verifiedRenew =
     \<lparr>vn_notificationUUID = ''uuid-renew'',
      vn_notificationType = ''DID_RENEW'',
      vn_subtype = Some ''BILLING_RECOVERY'',
      vn_environment = ''Production'',
      vn_bundleId = ''com.example.app'',
      vn_appAppleId = 1234567890,
      vn_pushoverUserKey = ''pushover-user-key'',
      vn_pushoverDevice = None,
      vn_signedTransactionInfo = None,
      vn_transactionInfo =
        Some (noTransactionInfo\<lparr>tx_productId := Some ''pro_yearly'',
                                 tx_transactionId := Some ''1000001111222233'',
                                 tx_transactionReason := Some ''RENEWAL'',
                                 tx_offerDiscountType := Some ''FREE_TRIAL''\<rparr>)\<rparr>"

definition verifiedIgnored :: VerifiedNotification where
  "verifiedIgnored =
     \<lparr>vn_notificationUUID = ''uuid-ignore'',
      vn_notificationType = ''DID_CHANGE_RENEWAL_STATUS'',
      vn_subtype = None,
      vn_environment = ''Production'',
      vn_bundleId = ''com.example.app'',
      vn_appAppleId = 1234567890,
      vn_pushoverUserKey = ''pushover-user-key'',
      vn_pushoverDevice = None,
      vn_signedTransactionInfo = None,
      vn_transactionInfo = None\<rparr>"

text \<open>The request of the tests, and dependencies as \<^verbatim>\<open>invokeHandler\<close> sets them up: the
  configuration and the verified notification are given, the ledger, the push channel
  and the log are those of the world.\<close>

definition postRequest :: WebhookRequest where
  "postRequest =
     \<lparr>req_method = Some ''POST'',
      req_body = Some (JObj [(''signedPayload'', JStr ''jws-data'')]),
      req_query = Some [(''secret'', JStr ''super-secret'')]\<rparr>"

definition testDependencies :: "VerifiedNotification \<Rightarrow> WebhookDependencies" where
  "testDependencies verified =
     \<lparr>dep_loadConfig = Inr createConfig,
      dep_verifyNotification = (\<lambda>signedPayload config w. (Inr verified, w)),
      dep_markNotificationAsNew = markNotificationAsNew,
      dep_sendPushover = sendPushoverNotification,
      dep_log = consoleLog\<rparr>"

text \<open>
  A platform for the examples: a root CA directory with one certificate, and a verifier
  library whose verifiers answer every notification as \<open>answers\<close> says for their
  environment and bundle id, and reject every transaction.
\<close>

definition stubVerifier ::
  "(Environment \<Rightarrow> string \<Rightarrow> error + json) \<Rightarrow>
   string list \<Rightarrow> bool \<Rightarrow> Environment \<Rightarrow> string \<Rightarrow> int option \<Rightarrow> SignedDataVerifier" where
  "stubVerifier answers rootCAs onlineChecks environment bundleId appAppleId =
     \<lparr>verifyAndDecodeNotification = (\<lambda>signedPayload. answers environment bundleId),
      verifyAndDecodeTransaction = (\<lambda>signedTransaction. Inl (Error ''VerificationException''))\<rparr>"

definition exampleRuntime :: "(Environment \<Rightarrow> string \<Rightarrow> error + json) \<Rightarrow> runtime" where
  "exampleRuntime answers =
     \<lparr>jsonParse = (\<lambda>s. None),
      toNumber = (\<lambda>s. None),
      base64urlDecode = (\<lambda>s. s),
      cwd = ''/var/task'',
      isAbsolute = (\<lambda>p. take 1 p = ''/''),
      pathJoin = (\<lambda>a b. a @ ''/'' @ b),
      existsSync = (\<lambda>p. True),
      readdirSync = (\<lambda>p. [''AppleRootCA-G3.cer'']),
      readFileSync = (\<lambda>p. ''certificate''),
      newSignedDataVerifier = stubVerifier answers\<rparr>"

text \<open>Verifiers that accept under one environment and one bundle id only, with the given
  payload.\<close>

definition acceptsOnly ::
  "Environment \<Rightarrow> string \<Rightarrow> json \<Rightarrow> Environment \<Rightarrow> string \<Rightarrow> error + json" where
  "acceptsOnly environment bundleId payload environment' bundleId' =
     (if environment' = environment \<and> bundleId' = bundleId then Inr payload
      else Inl (Error ''VerificationException''))"

text \<open>The tenant of the tests' configuration, and a configuration with another tenant in
  front of it.\<close>

definition exampleApp :: AppleAppConfig where
  "exampleApp =
     \<lparr>app_bundleId = Some ''com.example.app'',
      app_appAppleId = 1234567890,
      app_pushoverUserKey = ''pushover-user-key'',
      app_pushoverDevice = None\<rparr>"

definition firstApp :: AppleAppConfig where
  "firstApp =
     \<lparr>app_bundleId = Some ''com.first.app'',
      app_appAppleId = 1111111111,
      app_pushoverUserKey = ''first-user-key'',
      app_pushoverDevice = None\<rparr>"

definition twoApps :: AppConfig where
  "twoApps = createConfig\<lparr>appleApps := [firstApp, exampleApp]\<rparr>"

text \<open>A decoded notification payload for bundle id \<open>b\<close>.\<close>

definition examplePayload :: "string \<Rightarrow> json" where
  "examplePayload b =
     JObj [(''notificationType'', JStr ''SUBSCRIBED''),
           (''notificationUUID'', JStr ''uuid-1''),
           (''data'', JObj [(''bundleId'', JStr b), (''environment'', JStr ''Sandbox'')])]"

text \<open>An environment as the schema validates it, from which \<^verbatim>\<open>loadConfig\<close> builds the
  configuration of the tests.\<close>

definition exampleParsedEnv :: ParsedEnv where
  "exampleParsedEnv =
     \<lparr>WEBHOOK_SECRET = ''super-secret'',
      PUSHOVER_APP_TOKEN = ''pushover-app-token'',
      PUSHOVER_USER_KEY = ''pushover-user-key'',
      PUSHOVER_DEVICE = None,
      APPLE_BUNDLE_ID = Some ''com.example.app'',
      APPLE_APP_ID = Some 1234567890,
      APPLE_APPS_JSON = None,
      APPLE_ENABLE_ONLINE_CHECKS = False,
      APPLE_ROOT_CA_DIR = ''certs/apple'',
      KV_REST_API_URL = ''https://example.upstash.io'',
      KV_REST_API_TOKEN = ''upstash-token''\<rparr>"

definition exampleSchemas :: schemas where
  "exampleSchemas =
     \<lparr>envSchema_parse = (\<lambda>env. Inr exampleParsedEnv),
      appleAppsSchema_parse = (\<lambda>parsedJson. Inl (Error ''ZodError''))\<rparr>"

text \<open>The two events of the state store's test "returns FIRST_PAID_AFTER_TRIAL on first renew
  after a trial", and the state that the first of them leaves for the subscription when
  it arrives at instant \<open>1700000000000\<close> in an empty database.\<close>

definition trialSubscribe :: DecodedTransactionInfo where
  "trialSubscribe =
     noTransactionInfo\<lparr>tx_originalTransactionId := Some ''otx-2'',
                       tx_offerDiscountType := Some ''FREE_TRIAL'',
                       tx_originalPurchaseDate := Some 1700000000000,
                       tx_purchaseDate := Some 1700000000000\<rparr>"

definition firstRenewal :: DecodedTransactionInfo where
  "firstRenewal =
     noTransactionInfo\<lparr>tx_originalTransactionId := Some ''otx-2'',
                       tx_originalPurchaseDate := Some 1700000000000,
                       tx_purchaseDate := Some (1700000000000 + 7 * 24 * 60 * 60 * 1000)\<rparr>"

definition trialState :: SubscriptionState where
  "trialState =
     \<lparr>sawFreeTrial = True,
      didRenewCount = 0,
      notificationCount = 1,
      firstSeenAt = 1700000000000,
      updatedAt = 1700000000000,
      firstNotificationType = ''SUBSCRIBED'',
      lastNotificationType = ''SUBSCRIBED'',
      originalPurchaseDate = Some 1700000000000,
      firstPurchaseDate = Some 1700000000000,
      lastPurchaseDate = Some 1700000000000\<rparr>"

definition trialWorld :: world where
  "trialWorld =
     (freshWorld 1700000000000)
       \<lparr>kv := (kv (freshWorld 1700000000000))
                (''appstore:subscription:otx-2'' \<mapsto>
                   (stringifyState trialState, 1700000000000 + 63072000 * 1000))\<rparr>"

text \<open>A platform whose verifiers reject everything, for examples that verify nothing.\<close>

definition plainRuntime :: runtime where
  "plainRuntime = exampleRuntime (\<lambda>environment bundleId. Inl (Error ''VerificationException''))"

text \<open>The input of the message builder's test "formats Apple milliunit price values into
  major currency units".\<close>

definition pricedInput :: MessageInput where
  "pricedInput =
     \<lparr>msg_action = PURCHASE,
      msg_appBundleId = ''com.example.app'',
      msg_notificationType = ''DID_RENEW'',
      msg_subtype = None,
      msg_environment = ''Production'',
      msg_productId = Some ''com.example.yearly'',
      msg_transactionId = Some ''1000001234567890'',
      msg_transactionReason = None,
      msg_offerDiscountType = None,
      msg_subscriptionLifecycle = None,
      msg_price = Some 29990,
      msg_currency = Some ''EUR''\<rparr>"

text \<open>The pair of verifiers that the example platform builds for a bundle id and an app
  id under the tests' configuration, and the key under which the cache holds it.\<close>

definition examplePair ::
  "(Environment \<Rightarrow> string \<Rightarrow> error + json) \<Rightarrow> string \<Rightarrow> int \<Rightarrow> VerifierPair" where
  "examplePair answers b appId =
     \<lparr>production = stubVerifier answers [''certificate''] False PRODUCTION_ENV b (Some appId),
      sandbox = stubVerifier answers [''certificate''] False SANDBOX_ENV b None\<rparr>"

definition exampleKey :: "string \<Rightarrow> int \<Rightarrow> string \<times> int \<times> bool \<times> string" where
  "exampleKey b appId = (b, appId, False, ''/var/task/certs/apple'')"

text \<open>The world after the resolver has built the verifiers of both tenants of \<open>twoApps\<close>
  at instant 0.\<close>

definition resolvedWorld :: "(Environment \<Rightarrow> string \<Rightarrow> error + json) \<Rightarrow> world" where
  "resolvedWorld answers =
     (freshWorld 0)
       \<lparr>verifierCache :=
          [exampleKey ''com.first.app'' 1111111111 \<mapsto>
             examplePair answers ''com.first.app'' 1111111111,
           exampleKey ''com.example.app'' 1234567890 \<mapsto>
             examplePair answers ''com.example.app'' 1234567890]\<rparr>"

section \<open>Properties of the dedup ledger\<close>

lemma markNotificationAsNew_fresh:
  "kvOnline w \<Longrightarrow> kvLive w (getDedupeKey u) = None \<Longrightarrow>
   markNotificationAsNew u cfg w =
     (Inr True, w\<lparr>kv := (kv w)(getDedupeKey u \<mapsto> (JStr ''1'', clock w + dedupeTtlSeconds cfg * 1000))\<rparr>)"
  by (simp add: markNotificationAsNew_def redisSet_def)

lemma markNotificationAsNew_seen:
  "kvOnline w \<Longrightarrow> kvLive w (getDedupeKey u) = Some v \<Longrightarrow>
   markNotificationAsNew u cfg w = (Inr False, w)"
  by (simp add: markNotificationAsNew_def redisSet_def)

lemma markNotificationAsNew_offline:
  "\<not> kvOnline w \<Longrightarrow> markNotificationAsNew u cfg w = (Inl (Error ''fetch failed''), w)"
  by (simp add: markNotificationAsNew_def redisSet_def)

lemma loadConfig_ttl:
  "loadConfig rt sch env = Inr cfg \<Longrightarrow> dedupeTtlSeconds cfg = 2592000"
  by (auto simp: loadConfig_def DEDUPE_TTL_SECONDS_def split: sum.splits if_splits)

lemma loadConfig_example:
  "loadConfig rt exampleSchemas env = Inr createConfig"
  by (simp add: loadConfig_def exampleSchemas_def exampleParsedEnv_def truthyString_def
      buildSingleAppFallback_def createConfig_def DEDUPE_TTL_SECONDS_def)

text \<open>
  Claim C2.  Let the configuration come from \<^verbatim>\<open>loadConfig\<close> (so its TTL is the constant
  \<^verbatim>\<open>DEDUPE_TTL_SECONDS\<close>), the database answer, and the key of \<open>u\<close> not be live.  The first
  call to \<^verbatim>\<open>markNotificationAsNew\<close> returns true and writes the key with an expiry
  2592000 seconds (30 days) ahead.  In any world that still holds this entry, a call
  before the expiry returns false and changes nothing, and a call at or after the expiry
  returns true again and writes the key anew.
\<close>

theorem markNotificationAsNew_true_then_false:
  assumes cfg: "loadConfig rt sch env = Inr cfg"
    and online: "kvOnline w"
    and fresh: "kvLive w (getDedupeKey u) = None"
  shows
    "markNotificationAsNew u cfg w =
       (Inr True, w\<lparr>kv := (kv w)(getDedupeKey u \<mapsto> (JStr ''1'', clock w + 2592000 * 1000))\<rparr>) \<and>
     (\<forall>w2. kvOnline w2 \<and>
            kv w2 (getDedupeKey u) = Some (JStr ''1'', clock w + 2592000 * 1000) \<and>
            clock w2 < clock w + 2592000 * 1000 \<longrightarrow>
            markNotificationAsNew u cfg w2 = (Inr False, w2)) \<and>
     (\<forall>w2. kvOnline w2 \<and>
            kv w2 (getDedupeKey u) = Some (JStr ''1'', clock w + 2592000 * 1000) \<and>
            clock w + 2592000 * 1000 \<le> clock w2 \<longrightarrow>
            markNotificationAsNew u cfg w2 =
              (Inr True,
               w2\<lparr>kv := (kv w2)(getDedupeKey u \<mapsto> (JStr ''1'', clock w2 + 2592000 * 1000))\<rparr>))"
proof -
  have ttl: "dedupeTtlSeconds cfg = 2592000"
    using cfg by (rule loadConfig_ttl)
  have first: "markNotificationAsNew u cfg w =
       (Inr True, w\<lparr>kv := (kv w)(getDedupeKey u \<mapsto> (JStr ''1'', clock w + 2592000 * 1000))\<rparr>)"
    using markNotificationAsNew_fresh [OF online fresh, of cfg] ttl by simp
  have second: "markNotificationAsNew u cfg w2 = (Inr False, w2)"
    if "kvOnline w2" "kv w2 (getDedupeKey u) = Some (JStr ''1'', clock w + 2592000 * 1000)"
       "clock w2 < clock w + 2592000 * 1000" for w2
  proof -
    have "kvLive w2 (getDedupeKey u) = Some (JStr ''1'')"
      using that by (simp add: kvLive_def)
    with that(1) show ?thesis by (rule markNotificationAsNew_seen)
  qed
  have third: "markNotificationAsNew u cfg w2 =
       (Inr True, w2\<lparr>kv := (kv w2)(getDedupeKey u \<mapsto> (JStr ''1'', clock w2 + 2592000 * 1000))\<rparr>)"
    if "kvOnline w2" "kv w2 (getDedupeKey u) = Some (JStr ''1'', clock w + 2592000 * 1000)"
       "clock w + 2592000 * 1000 \<le> clock w2" for w2
  proof -
    have "kvLive w2 (getDedupeKey u) = None"
      using that by (simp add: kvLive_def)
    with that(1) show ?thesis
      using markNotificationAsNew_fresh [of w2 u cfg] ttl by simp
  qed
  from first second third show ?thesis by blast
qed

text \<open>The same on an empty database at instant 0: true; one second later false, with
  nothing written; 30 days later true again.\<close>

theorem markNotificationAsNew_true_then_false_witness:
  "loadConfig plainRuntime exampleSchemas (\<lambda>k. None)
     = Inr createConfig \<and>
   kvOnline (freshWorld 0) \<and>
   kvLive (freshWorld 0) (getDedupeKey ''uuid-1'') = None \<and>
   markNotificationAsNew ''uuid-1'' createConfig (freshWorld 0) =
     (Inr True,
      (freshWorld 0)\<lparr>kv := (kv (freshWorld 0))(getDedupeKey ''uuid-1'' \<mapsto> (JStr ''1'', 2592000000))\<rparr>) \<and>
   markNotificationAsNew ''uuid-1'' createConfig
     ((freshWorld 1000)\<lparr>kv := (kv (freshWorld 0))(getDedupeKey ''uuid-1'' \<mapsto> (JStr ''1'', 2592000000))\<rparr>) =
     (Inr False,
      (freshWorld 1000)\<lparr>kv := (kv (freshWorld 0))(getDedupeKey ''uuid-1'' \<mapsto> (JStr ''1'', 2592000000))\<rparr>) \<and>
   fst (markNotificationAsNew ''uuid-1'' createConfig
     ((freshWorld 2592000000)\<lparr>kv := (kv (freshWorld 0))(getDedupeKey ''uuid-1'' \<mapsto> (JStr ''1'', 2592000000))\<rparr>)) =
     Inr True"
proof -
  have cfg: "loadConfig plainRuntime exampleSchemas (\<lambda>k. None)
     = Inr createConfig"
    by (rule loadConfig_example)
  have online: "kvOnline (freshWorld 0)"
    by (simp add: freshWorld_def)
  have fresh: "kvLive (freshWorld 0) (getDedupeKey ''uuid-1'') = None"
    by (simp add: freshWorld_def kvLive_def)
  note T = markNotificationAsNew_true_then_false [OF cfg online fresh]
  have first: "markNotificationAsNew ''uuid-1'' createConfig (freshWorld 0) =
     (Inr True,
      (freshWorld 0)\<lparr>kv := (kv (freshWorld 0))(getDedupeKey ''uuid-1'' \<mapsto> (JStr ''1'', 2592000000))\<rparr>)"
    using T by (simp add: freshWorld_def)
  have second: "markNotificationAsNew ''uuid-1'' createConfig
     ((freshWorld 1000)\<lparr>kv := (kv (freshWorld 0))(getDedupeKey ''uuid-1'' \<mapsto> (JStr ''1'', 2592000000))\<rparr>) =
     (Inr False,
      (freshWorld 1000)\<lparr>kv := (kv (freshWorld 0))(getDedupeKey ''uuid-1'' \<mapsto> (JStr ''1'', 2592000000))\<rparr>)"
    using T by (simp add: freshWorld_def)
  have third: "fst (markNotificationAsNew ''uuid-1'' createConfig
     ((freshWorld 2592000000)\<lparr>kv := (kv (freshWorld 0))(getDedupeKey ''uuid-1'' \<mapsto> (JStr ''1'', 2592000000))\<rparr>)) =
     Inr True"
    using T by (simp add: freshWorld_def)
  from cfg online fresh first second third show ?thesis by simp
qed

text \<open>
  Claim C8, as the code has it.  For every notification UUID \<open>u\<close>, the ledger key that
  \<^verbatim>\<open>markNotificationAsNew\<close> checks and writes is the string \<^verbatim>\<open>appstore:notification:\<close>
  followed by \<open>u\<close>: the call rejects when the database does not answer; otherwise it
  returns true and writes that key (value \<^verbatim>\<open>"1"\<close>, expiring after the configured TTL)
  when that key is not live, and returns false and writes nothing when it is.
\<close>

theorem dedup_key_is_appstore_notification_uuid:
  "markNotificationAsNew u cfg w =
     (if \<not> kvOnline w then (Inl (Error ''fetch failed''), w)
      else if kvLive w (''appstore:notification:'' @ u) = None
      then (Inr True,
            w\<lparr>kv := (kv w)(''appstore:notification:'' @ u \<mapsto>
                           (JStr ''1'', clock w + dedupeTtlSeconds cfg * 1000))\<rparr>)
      else (Inr False, w))"
  by (simp add: markNotificationAsNew_def redisSet_def getDedupeKey_def)

theorem dedup_key_is_appstore_notification_uuid_witness:
  "markNotificationAsNew ''uuid-1'' createConfig (freshWorld 0) =
     (Inr True,
      (freshWorld 0)\<lparr>kv := (kv (freshWorld 0))(''appstore:notification:uuid-1'' \<mapsto>
                           (JStr ''1'', 2592000000))\<rparr>)"
  using dedup_key_is_appstore_notification_uuid [of "''uuid-1''" createConfig "freshWorld 0"]
  by (simp add: kvLive_def freshWorld_def createConfig_def)

text \<open>
  The key \<^verbatim>\<open>notification:uuid-1\<close> is not the one written for the UUID \<^verbatim>\<open>uuid-1\<close>: after
  the first call on an empty database it is still absent, and the key that holds the
  marker is \<^verbatim>\<open>appstore:notification:uuid-1\<close>.
\<close>

theorem dedup_key_plain_prefix_counterexample:
  "getDedupeKey ''uuid-1'' \<noteq> ''notification:'' @ ''uuid-1'' \<and>
   kv (snd (markNotificationAsNew ''uuid-1'' createConfig (freshWorld 0)))
      (''notification:'' @ ''uuid-1'') = None \<and>
   kv (snd (markNotificationAsNew ''uuid-1'' createConfig (freshWorld 0)))
      ''appstore:notification:uuid-1'' = Some (JStr ''1'', 2592000000)"
  by (simp add: markNotificationAsNew_def redisSet_def getDedupeKey_def kvLive_def
      freshWorld_def createConfig_def)

section \<open>Properties of the lifecycle state store\<close>

lemma days_window:
  "0 < d \<Longrightarrow>
   (rat_of_int d / rat_of_int ONE_DAY_IN_MS \<ge> 5 \<and> rat_of_int d / rat_of_int ONE_DAY_IN_MS \<le> 14)
     = (5 * ONE_DAY_IN_MS \<le> d \<and> d \<le> 14 * ONE_DAY_IN_MS)"
proof -
  have pos: "(0::rat) < 86400000" by simp
  have a: "(5 \<le> rat_of_int d / 86400000) = (5 * 86400000 \<le> rat_of_int d)"
    using pos by (simp add: pos_le_divide_eq)
  have b: "(rat_of_int d / 86400000 \<le> 14) = (rat_of_int d \<le> 14 * 86400000)"
    using pos by (simp add: pos_divide_le_eq)
  have c: "(5 * 86400000 \<le> rat_of_int d) = (5 * 86400000 \<le> d)"
    by linarith
  have d: "(rat_of_int d \<le> 14 * 86400000) = (d \<le> 14 * 86400000)"
    by linarith
  show ?thesis
    unfolding ONE_DAY_IN_MS_def using a b c d by simp
qed

lemma isLikely_window:
  "isLikelyFirstPaidAfterTrialByDates ti =
     (\<exists>pd opd. Option.bind ti tx_purchaseDate = Some pd \<and>
               Option.bind ti tx_originalPurchaseDate = Some opd \<and>
               0 < pd - opd \<and> 5 * ONE_DAY_IN_MS \<le> pd - opd \<and> pd - opd \<le> 14 * ONE_DAY_IN_MS)"
proof (cases "Option.bind ti tx_purchaseDate")
  case None
  then show ?thesis by (simp add: isLikelyFirstPaidAfterTrialByDates_def)
next
  case (Some pd)
  note pd = this
  show ?thesis
  proof (cases "Option.bind ti tx_originalPurchaseDate")
    case None
    then show ?thesis using pd by (simp add: isLikelyFirstPaidAfterTrialByDates_def)
  next
    case (Some opd)
    show ?thesis
    proof (cases "0 < pd - opd")
      case True
      then show ?thesis
        using pd Some days_window [of "pd - opd"]
        by (simp add: isLikelyFirstPaidAfterTrialByDates_def Let_def)
    next
      case False
      then show ?thesis
        using pd Some by (simp add: isLikelyFirstPaidAfterTrialByDates_def Let_def)
    qed
  qed
qed

text \<open>
  Claim C1.  For every notification type, transaction info and prior state,
  \<^verbatim>\<open>determineLifecycleHint\<close> gives \<open>TRIAL_START\<close> when the type is \<^verbatim>\<open>SUBSCRIBED\<close> and the
  offer discount type is \<^verbatim>\<open>FREE_TRIAL\<close>; otherwise, for the type \<^verbatim>\<open>DID_RENEW\<close>, it gives
  \<open>FIRST_PAID_AFTER_TRIAL\<close> exactly when the prior state has a free trial seen and zero
  renewals, or both dates are present and their gap is positive and between 5 and 14
  days inclusive, and \<open>RENEWAL\<close> otherwise; for any other type it gives no hint.
\<close>

theorem determineLifecycleHint_by_cases:
  "determineLifecycleHint notificationType ti previousState =
     (if notificationType = ''SUBSCRIBED'' \<and> Option.bind ti tx_offerDiscountType = Some ''FREE_TRIAL''
      then Some TRIAL_START
      else if notificationType = ''DID_RENEW'' then
        (if (\<exists>p. previousState = Some p \<and> sawFreeTrial p \<and> didRenewCount p = 0) \<or>
            (\<exists>pd opd. Option.bind ti tx_purchaseDate = Some pd \<and>
                      Option.bind ti tx_originalPurchaseDate = Some opd \<and>
                      0 < pd - opd \<and>
                      5 * ONE_DAY_IN_MS \<le> pd - opd \<and> pd - opd \<le> 14 * ONE_DAY_IN_MS)
         then Some FIRST_PAID_AFTER_TRIAL
         else Some RENEWAL)
      else None)"
proof -
  have trial: "hasFreeTrial ti = (Option.bind ti tx_offerDiscountType = Some ''FREE_TRIAL'')"
    by (cases ti) (simp_all add: hasFreeTrial_def)
  have prior:
    "((case previousState of None \<Rightarrow> False | Some p \<Rightarrow> sawFreeTrial p) \<and>
      (case previousState of None \<Rightarrow> 0 | Some p \<Rightarrow> didRenewCount p) = 0)
       = (\<exists>p. previousState = Some p \<and> sawFreeTrial p \<and> didRenewCount p = 0)"
    by (cases previousState) simp_all
  show ?thesis
    unfolding determineLifecycleHint_def Let_def trial prior isLikely_window
    by simp
qed

text \<open>The case of the state store's test: a renewal seven days after the original
  purchase, with no prior state, is the first paid period after a trial.\<close>

theorem determineLifecycleHint_by_cases_witness:
  "determineLifecycleHint ''DID_RENEW''
     (Some (noTransactionInfo\<lparr>tx_originalTransactionId := Some ''otx-2'',
                              tx_originalPurchaseDate := Some 1700000000000,
                              tx_purchaseDate := Some (1700000000000 + 7 * 24 * 60 * 60 * 1000)\<rparr>))
     None
   = Some FIRST_PAID_AFTER_TRIAL"
  using determineLifecycleHint_by_cases [of "''DID_RENEW''"
      "Some (noTransactionInfo\<lparr>tx_originalTransactionId := Some ''otx-2'',
                              tx_originalPurchaseDate := Some 1700000000000,
                              tx_purchaseDate := Some (1700000000000 + 7 * 24 * 60 * 60 * 1000)\<rparr>)"
      None]
  by (simp add: noTransactionInfo_def ONE_DAY_IN_MS_def)


lemma map_of_optionalEntry:
  "map_of (optionalEntry k v) k' = (if k' = k then map_option JNum v else None)"
  by (cases v) (simp_all add: optionalEntry_def)

lemma getProp_stringifyState:
  "getProp (stringifyState s) ''sawFreeTrial'' = Some (JBool (sawFreeTrial s))"
  "getProp (stringifyState s) ''didRenewCount'' = Some (JNum (didRenewCount s))"
  "getProp (stringifyState s) ''notificationCount'' = Some (JNum (notificationCount s))"
  "getProp (stringifyState s) ''firstSeenAt'' = Some (JNum (firstSeenAt s))"
  "getProp (stringifyState s) ''updatedAt'' = Some (JNum (updatedAt s))"
  "getProp (stringifyState s) ''firstNotificationType'' = Some (JStr (firstNotificationType s))"
  "getProp (stringifyState s) ''lastNotificationType'' = Some (JStr (lastNotificationType s))"
  "getProp (stringifyState s) ''originalPurchaseDate'' = map_option JNum (originalPurchaseDate s)"
  "getProp (stringifyState s) ''firstPurchaseDate'' = map_option JNum (firstPurchaseDate s)"
  "getProp (stringifyState s) ''lastPurchaseDate'' = map_option JNum (lastPurchaseDate s)"
  by (simp_all add: stringifyState_def map_of_append map_add_def map_of_optionalEntry
      split: option.split)

lemma optionalFiniteNumber_JNum:
  "optionalFiniteNumber rt (map_option JNum v) = v"
  "optionalFiniteNumber rt (Some (JNum n)) = Some n"
  by (cases v) (simp_all add: optionalFiniteNumber_def)

text \<open>A state whose two notification types are not empty is read back as it was written.\<close>

lemma parse_stringifyState:
  assumes "firstNotificationType s \<noteq> []" and "lastNotificationType s \<noteq> []"
  shows "parseSubscriptionState rt (Some (stringifyState s)) = Some s"
proof -
  obtain kvs where kvs: "stringifyState s = JObj kvs"
    by (simp add: stringifyState_def)
  have props:
    "map_of kvs ''sawFreeTrial'' = Some (JBool (sawFreeTrial s))"
    "map_of kvs ''didRenewCount'' = Some (JNum (didRenewCount s))"
    "map_of kvs ''notificationCount'' = Some (JNum (notificationCount s))"
    "map_of kvs ''firstSeenAt'' = Some (JNum (firstSeenAt s))"
    "map_of kvs ''updatedAt'' = Some (JNum (updatedAt s))"
    "map_of kvs ''firstNotificationType'' = Some (JStr (firstNotificationType s))"
    "map_of kvs ''lastNotificationType'' = Some (JStr (lastNotificationType s))"
    "map_of kvs ''originalPurchaseDate'' = map_option JNum (originalPurchaseDate s)"
    "map_of kvs ''firstPurchaseDate'' = map_option JNum (firstPurchaseDate s)"
    "map_of kvs ''lastPurchaseDate'' = map_option JNum (lastPurchaseDate s)"
    using getProp_stringifyState [of s] unfolding kvs by simp_all
  show ?thesis
    unfolding kvs parseSubscriptionState_def
    using assms
    by (simp add: props optionalFiniteNumber_JNum optionalString_def optionalBoolean_def
        truthyString_def Let_def)
qed

lemma parseSubscriptionState_types_nonempty:
  assumes "parseSubscriptionState rt raw = Some s"
  shows "firstNotificationType s \<noteq> [] \<and> lastNotificationType s \<noteq> []"
  using assms
  by (auto simp: parseSubscriptionState_def Let_def truthyString_def
      split: option.splits json.splits if_splits)

text \<open>The first event of the test, on an empty database, leaves \<open>trialWorld\<close>.\<close>

lemma trialSubscribe_run:
  "determineSubscriptionLifecycleHint rt ''SUBSCRIBED'' (Some trialSubscribe) cfg
     (freshWorld 1700000000000) = (Inr (Some TRIAL_START), trialWorld)"
  by (simp add: determineSubscriptionLifecycleHint_def trialSubscribe_def noTransactionInfo_def
      truthyString_def getSubscriptionStateKey_def redisGet_def redisSet_def kvLive_def
      freshWorld_def parseSubscriptionState_def determineLifecycleHint_def hasFreeTrial_def
      nextState_def trialWorld_def trialState_def SUBSCRIPTION_STATE_TTL_SECONDS_def Let_def)

text \<open>
  Claim C10.  Let the database answer, the transaction carry a non-empty
  \<^verbatim>\<open>originalTransactionId\<close>, and the state stored under its key parse to \<open>prev\<close>.  Then
  \<^verbatim>\<open>determineSubscriptionLifecycleHint\<close> returns, and the record it leaves under the key
  has \<^verbatim>\<open>didRenewCount\<close> equal to that of \<open>prev\<close> plus one when the type is \<^verbatim>\<open>DID_RENEW\<close>,
  and equal to that of \<open>prev\<close> otherwise.  For a non-empty notification type the record
  parses again, to a state whose count is that number, which is not below the count of
  \<open>prev\<close>: the next update starts from it.
\<close>

theorem didRenewCount_persisted:
  assumes online: "kvOnline w"
    and otid: "Option.bind ti tx_originalTransactionId = Some otid" "otid \<noteq> []"
    and prior: "parseSubscriptionState rt (kvLive w (getSubscriptionStateKey otid)) = Some prev"
  shows
    "\<exists>hint persisted w'.
       determineSubscriptionLifecycleHint rt nt ti cfg w = (Inr hint, w') \<and>
       kvLive w' (getSubscriptionStateKey otid) = Some persisted \<and>
       getProp persisted ''didRenewCount'' =
         Some (JNum (didRenewCount prev + (if nt = ''DID_RENEW'' then 1 else 0))) \<and>
       (nt \<noteq> [] \<longrightarrow>
          (\<exists>next. parseSubscriptionState rt (kvLive w' (getSubscriptionStateKey otid)) = Some next \<and>
                  didRenewCount next = didRenewCount prev + (if nt = ''DID_RENEW'' then 1 else 0) \<and>
                  didRenewCount prev \<le> didRenewCount next))"
proof -
  define key where "key = getSubscriptionStateKey otid"
  define hint where "hint = determineLifecycleHint nt ti (Some prev)"
  define nxt where "nxt = nextState nt ti (Some prev) hint (clock w)"
  define w' where
    "w' = w\<lparr>kv := (kv w)(key \<mapsto> (stringifyState nxt, clock w + SUBSCRIPTION_STATE_TTL_SECONDS * 1000))\<rparr>"
  have run: "determineSubscriptionLifecycleHint rt nt ti cfg w = (Inr hint, w')"
    using online otid prior
    by (simp add: determineSubscriptionLifecycleHint_def truthyString_def redisGet_def
        redisSet_def Let_def key_def hint_def nxt_def w'_def)
  have live: "kvLive w' key = Some (stringifyState nxt)"
    by (simp add: kvLive_def w'_def SUBSCRIPTION_STATE_TTL_SECONDS_def)
  have count: "didRenewCount nxt = didRenewCount prev + (if nt = ''DID_RENEW'' then 1 else 0)"
    by (simp add: nxt_def nextState_def Let_def)
  have stored: "getProp (stringifyState nxt) ''didRenewCount'' =
      Some (JNum (didRenewCount prev + (if nt = ''DID_RENEW'' then 1 else 0)))"
    using getProp_stringifyState(2) [of nxt] count by simp
  have again: "parseSubscriptionState rt (kvLive w' key) = Some nxt" if "nt \<noteq> []"
  proof -
    have "firstNotificationType nxt \<noteq> []"
      using parseSubscriptionState_types_nonempty [OF prior]
      by (simp add: nxt_def nextState_def Let_def)
    moreover have "lastNotificationType nxt \<noteq> []"
      using that by (simp add: nxt_def nextState_def Let_def)
    ultimately show ?thesis
      unfolding live by (rule parse_stringifyState)
  qed
  have mono: "didRenewCount prev \<le> didRenewCount nxt"
    using count by simp
  show ?thesis
    using run live stored again count mono unfolding key_def by blast
qed

text \<open>The second event of the test: the stored state of the trial has count 0, and the
  renewal leaves a record with count 1.\<close>

theorem didRenewCount_persisted_witness:
  "kvOnline trialWorld \<and>
   Option.bind (Some firstRenewal) tx_originalTransactionId = Some ''otx-2'' \<and>
   parseSubscriptionState plainRuntime (kvLive trialWorld (getSubscriptionStateKey ''otx-2''))
     = Some trialState \<and>
   (\<exists>hint persisted w'.
      determineSubscriptionLifecycleHint plainRuntime ''DID_RENEW'' (Some firstRenewal)
        createConfig trialWorld = (Inr hint, w') \<and>
      kvLive w' (getSubscriptionStateKey ''otx-2'') = Some persisted \<and>
      getProp persisted ''didRenewCount'' = Some (JNum 1) \<and>
      (\<exists>next. parseSubscriptionState plainRuntime (kvLive w' (getSubscriptionStateKey ''otx-2''))
                = Some next \<and>
              didRenewCount next = 1))"
proof -
  have online: "kvOnline trialWorld"
    by (simp add: trialWorld_def freshWorld_def)
  have otid: "Option.bind (Some firstRenewal) tx_originalTransactionId = Some ''otx-2''"
    by (simp add: firstRenewal_def noTransactionInfo_def)
  have stored: "kvLive trialWorld (getSubscriptionStateKey ''otx-2'') = Some (stringifyState trialState)"
    by (simp add: trialWorld_def freshWorld_def kvLive_def getSubscriptionStateKey_def)
  have prior: "parseSubscriptionState plainRuntime
      (kvLive trialWorld (getSubscriptionStateKey ''otx-2'')) = Some trialState"
    unfolding stored by (rule parse_stringifyState) (simp_all add: trialState_def)
  have count: "didRenewCount trialState = 0"
    by (simp add: trialState_def)
  from didRenewCount_persisted [OF online otid _ prior, of "''DID_RENEW''" createConfig]
  obtain hint persisted w' where
    "determineSubscriptionLifecycleHint plainRuntime ''DID_RENEW'' (Some firstRenewal)
       createConfig trialWorld = (Inr hint, w')"
    "kvLive w' (getSubscriptionStateKey ''otx-2'') = Some persisted"
    "getProp persisted ''didRenewCount'' = Some (JNum 1)"
    "\<exists>next. parseSubscriptionState plainRuntime (kvLive w' (getSubscriptionStateKey ''otx-2''))
                = Some next \<and> didRenewCount next = 1"
    unfolding count by auto
  with online otid prior show ?thesis by blast
qed

section \<open>Properties of the message builder\<close>

lemma join_snoc: "xs \<noteq> [] \<Longrightarrow> join sep (xs @ [y]) = join sep xs @ sep @ y"
  by (induction sep xs rule: join.induct) auto

lemma amount_29990: "formatAmount (Some 29990) (Some ''EUR'') = ''29.99 EUR''"
  by (simp add: formatAmount_def formatThousandths_def fractionDigits_def digitChar_def
      showNat.simps truthyString_def)

text \<open>The earlier revision prints the same price as \<^verbatim>\<open>29990 EUR\<close>.\<close>

lemma amount_29990_unscaled: "formatAmountUnscaled (Some 29990) (Some ''EUR'') = ''29990 EUR''"
  by (simp add: formatAmountUnscaled_def showInt_def digitChar_def showNat.simps truthyString_def)

text \<open>
  Claim C9.  For every message input: when the price is 29990 and the currency
  \<^verbatim>\<open>EUR\<close>, the amount is rendered as \<^verbatim>\<open>29.99 EUR\<close>, the message has exactly one part that
  starts with \<^verbatim>\<open>amount=\<close>, it is \<^verbatim>\<open>amount=29.99 EUR\<close>, and it ends the message; when the
  price is absent, no part of the message starts with \<^verbatim>\<open>amount=\<close>.
\<close>

theorem amount_field:
  "(msg_price input = Some 29990 \<and> msg_currency input = Some ''EUR'' \<longrightarrow>
      formatAmount (msg_price input) (msg_currency input) = ''29.99 EUR'' \<and>
      filter (prefix ''amount='') (messageParts input) = [''amount=29.99 EUR''] \<and>
      last (messageParts input) = ''amount=29.99 EUR'' \<and>
      suffix ('' | '' @ ''amount=29.99 EUR'') (message (buildPushoverMessage input))) \<and>
   (msg_price input = None \<longrightarrow>
      filter (prefix ''amount='') (messageParts input) = [])"
proof (intro conjI impI)
  assume p: "msg_price input = Some 29990 \<and> msg_currency input = Some ''EUR''"
  define P where
    "P = [''app='' @ msg_appBundleId input,
          ''type='' @ msg_notificationType input,
          ''product='' @ (case msg_productId input of None \<Rightarrow> ''n/a'' | Some p \<Rightarrow> p),
          ''env='' @ msg_environment input,
          ''tx='' @ shortTransactionId (msg_transactionId input)]
         @ pushIf (msg_subtype input) ''subtype=''
         @ pushIf (msg_transactionReason input) ''reason=''
         @ pushIf (msg_offerDiscountType input) ''offer=''
         @ pushIf (msg_subscriptionLifecycle input) ''lifecycle=''"
  have parts: "messageParts input = P @ [''amount=29.99 EUR'']"
    using p by (simp add: messageParts_def P_def amount_29990 Let_def)
  have ne: "P \<noteq> []"
    by (simp add: P_def)
  have none: "filter (prefix ''amount='') P = []"
    by (simp add: P_def pushIf_def)
  from p show "formatAmount (msg_price input) (msg_currency input) = ''29.99 EUR''"
    by (simp add: amount_29990)
  show "filter (prefix ''amount='') (messageParts input) = [''amount=29.99 EUR'']"
    unfolding parts filter_append none by simp
  show "last (messageParts input) = ''amount=29.99 EUR''"
    unfolding parts by simp
  have "message (buildPushoverMessage input) =
          join '' | '' P @ ('' | '' @ ''amount=29.99 EUR'')"
    unfolding buildPushoverMessage_def parts using join_snoc [OF ne] by simp
  then show "suffix ('' | '' @ ''amount=29.99 EUR'') (message (buildPushoverMessage input))"
    by (rule suffixI)
next
  assume "msg_price input = None"
  then show "filter (prefix ''amount='') (messageParts input) = []"
    unfolding messageParts_def Let_def
    by (simp add: formatAmount_def pushIf_def)
qed

text \<open>The two tests of the message builder: with the price, and with price and currency
  left out.\<close>

theorem amount_field_witness:
  "msg_price pricedInput = Some 29990 \<and> msg_currency pricedInput = Some ''EUR'' \<and>
   filter (prefix ''amount='') (messageParts pricedInput) = [''amount=29.99 EUR''] \<and>
   msg_price (pricedInput\<lparr>msg_price := None, msg_currency := None\<rparr>) = None \<and>
   filter (prefix ''amount='')
     (messageParts (pricedInput\<lparr>msg_price := None, msg_currency := None\<rparr>)) = [] \<and>
   message (buildPushoverMessage (pricedInput\<lparr>msg_price := None, msg_currency := None\<rparr>)) =
     ''app=com.example.app | type=DID_RENEW | product=com.example.yearly | env=Production | tx=100000...7890''"
proof -
  have a: "msg_price pricedInput = Some 29990 \<and> msg_currency pricedInput = Some ''EUR''"
    by (simp add: pricedInput_def)
  have b: "msg_price (pricedInput\<lparr>msg_price := None, msg_currency := None\<rparr>) = None"
    by simp
  have c: "message (buildPushoverMessage (pricedInput\<lparr>msg_price := None, msg_currency := None\<rparr>)) =
     ''app=com.example.app | type=DID_RENEW | product=com.example.yearly | env=Production | tx=100000...7890''"
    by (simp add: buildPushoverMessage_def messageParts_def pricedInput_def pushIf_def
        truthyString_def shortTransactionId_def formatAmount_def)
  from amount_field [of pricedInput] a
  have d: "filter (prefix ''amount='') (messageParts pricedInput) = [''amount=29.99 EUR'']"
    by blast
  from amount_field [of "pricedInput\<lparr>msg_price := None, msg_currency := None\<rparr>"] b
  have e: "filter (prefix ''amount='')
     (messageParts (pricedInput\<lparr>msg_price := None, msg_currency := None\<rparr>)) = []"
    by blast
  from a b c d e show ?thesis by blast
qed

section \<open>Properties of the pipeline orchestrator\<close>

lemma getSignedPayload_object:
  "getSignedPayload rt (Some (JObj kvs)) = Some (signedPayloadOf (JObj kvs))"
  by (subst getSignedPayload.simps) simp

lemma postRequest_payload:
  "getSignedPayload rt (req_body postRequest) = Some (Some ''jws-data'')"
  by (simp add: postRequest_def getSignedPayload_object signedPayloadOf_def trim_def
      isWhiteSpace_def)

lemma postRequest_secret:
  "readQueryParam (req_query postRequest) ''secret'' = Some (webhookSecret createConfig)"
  by (simp add: postRequest_def readQueryParam_def createConfig_def)

text \<open>A request that passes the checks of method, configuration, secret and payload, and
  whose payload verifies, is handled by the part of the handler behind the verification.\<close>

lemma webhookHandler_verified:
  assumes "req_method request = Some ''POST''"
    and "dep_loadConfig deps = Inr config"
    and "readQueryParam (req_query request) ''secret'' = Some (webhookSecret config)"
    and "getSignedPayload rt (req_body request) = Some (Some signedPayload)"
    and "dep_verifyNotification deps signedPayload config w = (Inr verified, w1)"
  shows "webhookHandler rt deps request w = Some (handleVerified deps config verified w1)"
  using assms by (simp add: webhookHandler_def)

lemma handleVerified_ignored:
  assumes "classifyNotificationType (vn_notificationType verified) = IGNORE"
    and "dep_log deps = consoleLog"
  shows "handleVerified deps config verified w1 =
     (\<lparr>headers = [(''Cache-Control'', ''no-store'')], statusCode = 200,
        jsonBody = JObj [(''ok'', JBool True), (''ignored'', JBool True)]\<rparr>,
      w1\<lparr>logLines := logLines w1 @
           [\<lparr>log_action = ''ignored'',
             log_notificationUUID = Some (vn_notificationUUID verified),
             log_notificationType = Some (vn_notificationType verified),
             log_environment = Some (vn_environment verified),
             log_error = None\<rparr>]\<rparr>)"
  using assms
  by (simp add: handleVerified_def responseJson_def buildLogPayload_def consoleLog_def)

lemma handleVerified_deduped:
  assumes "classifyNotificationType (vn_notificationType verified) \<noteq> IGNORE"
    and "dep_markNotificationAsNew deps = markNotificationAsNew"
    and "dep_log deps = consoleLog"
    and "kvOnline w1"
    and "kvLive w1 (getDedupeKey (vn_notificationUUID verified)) \<noteq> None"
  shows "handleVerified deps config verified w1 =
     (\<lparr>headers = [(''Cache-Control'', ''no-store'')], statusCode = 200,
        jsonBody = JObj [(''ok'', JBool True), (''deduped'', JBool True)]\<rparr>,
      w1\<lparr>logLines := logLines w1 @
           [\<lparr>log_action = ''deduped'',
             log_notificationUUID = Some (vn_notificationUUID verified),
             log_notificationType = Some (vn_notificationType verified),
             log_environment = Some (vn_environment verified),
             log_error = None\<rparr>]\<rparr>)"
  using assms
  by (simp add: handleVerified_def responseJson_def buildLogPayload_def consoleLog_def
      markNotificationAsNew_def redisSet_def)

lemma handleVerified_new:
  assumes "classifyNotificationType (vn_notificationType verified) \<noteq> IGNORE"
    and "dep_markNotificationAsNew deps = markNotificationAsNew"
    and "dep_sendPushover deps = sendPushoverNotification"
    and "dep_log deps = consoleLog"
    and "kvOnline w1"
    and "kvLive w1 (getDedupeKey (vn_notificationUUID verified)) = None"
  shows "\<exists>form entry w'.
     handleVerified deps config verified w1 =
       (if pushoverAccepts w1
        then \<lparr>headers = [(''Cache-Control'', ''no-store'')], statusCode = 200,
               jsonBody = JObj [(''ok'', JBool True)]\<rparr>
        else \<lparr>headers = [(''Cache-Control'', ''no-store'')], statusCode = 500,
               jsonBody = JObj [(''ok'', JBool False), (''error'', JStr ''internal_error'')]\<rparr>,
        w') \<and>
     pushoverRequests w' = pushoverRequests w1 @ [form] \<and>
     kv w' = (kv w1)(getDedupeKey (vn_notificationUUID verified) \<mapsto>
                       (JStr ''1'', clock w1 + dedupeTtlSeconds config * 1000)) \<and>
     logLines w' = logLines w1 @ [entry] \<and>
     log_action entry = (if pushoverAccepts w1 then ''pushed'' else ''error'') \<and>
     log_notificationUUID entry = Some (vn_notificationUUID verified)"
proof (cases "pushoverReply w1")
  case None
  then show ?thesis
    using assms
    by (simp add: handleVerified_def responseJson_def buildLogPayload_def consoleLog_def
        markNotificationAsNew_def redisSet_def sendPushoverNotification_def Let_def
        pushoverAccepts_def)
next
  case (Some reply)
  obtain status responseText where r: "reply = (status, responseText)"
    by (cases reply)
  show ?thesis
  proof (cases "responseOk status")
    case True
    then show ?thesis
      using assms Some r
      by (simp add: handleVerified_def responseJson_def buildLogPayload_def consoleLog_def
          markNotificationAsNew_def redisSet_def sendPushoverNotification_def Let_def
          pushoverAccepts_def)
  next
    case False
    then show ?thesis
      using assms Some r
      by (simp add: handleVerified_def responseJson_def buildLogPayload_def consoleLog_def
          markNotificationAsNew_def redisSet_def sendPushoverNotification_def Let_def
          pushoverAccepts_def)
  qed
qed

text \<open>
  Claim C5, as the code has it.  Take a request that passes the handler's checks and whose
  payload verifies, with the ledger, the push channel and the log of the world, and a
  database that answers.  If the type is a purchase or a refund and the UUID's key is not
  live, the handler makes exactly one request to the push channel and leaves the key
  written; the response has status 200 and body \<^verbatim>\<open>{ok: true}\<close> and the log says \<^verbatim>\<open>pushed\<close>
  when the push channel accepts the request, and the response has status 500 and body
  \<^verbatim>\<open>{ok: false, error: "internal_error"}\<close> and the log says \<^verbatim>\<open>error\<close> when it does not.
  If the key is live (the UUID is replayed), the response has status 200 and body
  \<^verbatim>\<open>{ok: true, deduped: true}\<close>, the log says \<^verbatim>\<open>deduped\<close> and nothing else changes: no push
  request, no write.  If the type is ignored, the response has status 200 and body
  \<^verbatim>\<open>{ok: true, ignored: true}\<close>, the log says \<^verbatim>\<open>ignored\<close> and nothing else changes: no
  write, no push request.
\<close>

theorem handler_pushed_deduped_ignored:
  assumes "req_method request = Some ''POST''"
    and "dep_loadConfig deps = Inr config"
    and "readQueryParam (req_query request) ''secret'' = Some (webhookSecret config)"
    and "getSignedPayload rt (req_body request) = Some (Some signedPayload)"
    and "dep_verifyNotification deps signedPayload config w = (Inr verified, w1)"
    and "dep_markNotificationAsNew deps = markNotificationAsNew"
    and "dep_sendPushover deps = sendPushoverNotification"
    and "dep_log deps = consoleLog"
    and "kvOnline w1"
  shows
    "(classifyNotificationType (vn_notificationType verified) \<noteq> IGNORE \<and>
      kvLive w1 (getDedupeKey (vn_notificationUUID verified)) = None \<longrightarrow>
        (\<exists>form entry w'.
           webhookHandler rt deps request w =
             Some (if pushoverAccepts w1
                   then \<lparr>headers = [(''Cache-Control'', ''no-store'')], statusCode = 200,
                          jsonBody = JObj [(''ok'', JBool True)]\<rparr>
                   else \<lparr>headers = [(''Cache-Control'', ''no-store'')], statusCode = 500,
                          jsonBody = JObj [(''ok'', JBool False),
                                           (''error'', JStr ''internal_error'')]\<rparr>,
                   w') \<and>
           pushoverRequests w' = pushoverRequests w1 @ [form] \<and>
           kv w' = (kv w1)(getDedupeKey (vn_notificationUUID verified) \<mapsto>
                             (JStr ''1'', clock w1 + dedupeTtlSeconds config * 1000)) \<and>
           logLines w' = logLines w1 @ [entry] \<and>
           log_action entry = (if pushoverAccepts w1 then ''pushed'' else ''error'') \<and>
           log_notificationUUID entry = Some (vn_notificationUUID verified))) \<and>
     (classifyNotificationType (vn_notificationType verified) \<noteq> IGNORE \<and>
      kvLive w1 (getDedupeKey (vn_notificationUUID verified)) \<noteq> None \<longrightarrow>
        webhookHandler rt deps request w =
          Some (\<lparr>headers = [(''Cache-Control'', ''no-store'')], statusCode = 200,
                  jsonBody = JObj [(''ok'', JBool True), (''deduped'', JBool True)]\<rparr>,
                w1\<lparr>logLines := logLines w1 @
                     [\<lparr>log_action = ''deduped'',
                       log_notificationUUID = Some (vn_notificationUUID verified),
                       log_notificationType = Some (vn_notificationType verified),
                       log_environment = Some (vn_environment verified),
                       log_error = None\<rparr>]\<rparr>)) \<and>
     (classifyNotificationType (vn_notificationType verified) = IGNORE \<longrightarrow>
        webhookHandler rt deps request w =
          Some (\<lparr>headers = [(''Cache-Control'', ''no-store'')], statusCode = 200,
                  jsonBody = JObj [(''ok'', JBool True), (''ignored'', JBool True)]\<rparr>,
                w1\<lparr>logLines := logLines w1 @
                     [\<lparr>log_action = ''ignored'',
                       log_notificationUUID = Some (vn_notificationUUID verified),
                       log_notificationType = Some (vn_notificationType verified),
                       log_environment = Some (vn_environment verified),
                       log_error = None\<rparr>]\<rparr>))"
proof -
  have run: "webhookHandler rt deps request w = Some (handleVerified deps config verified w1)"
    using assms(1-5) by (rule webhookHandler_verified)
  show ?thesis
  proof (intro conjI impI)
    assume a: "classifyNotificationType (vn_notificationType verified) \<noteq> IGNORE \<and>
      kvLive w1 (getDedupeKey (vn_notificationUUID verified)) = None"
    from a have c: "classifyNotificationType (vn_notificationType verified) \<noteq> IGNORE"
      and f: "kvLive w1 (getDedupeKey (vn_notificationUUID verified)) = None"
      by simp_all
    from handleVerified_new [OF c assms(6) assms(7) assms(8) assms(9) f, of config]
    show "\<exists>form entry w'.
           webhookHandler rt deps request w =
             Some (if pushoverAccepts w1
                   then \<lparr>headers = [(''Cache-Control'', ''no-store'')], statusCode = 200,
                          jsonBody = JObj [(''ok'', JBool True)]\<rparr>
                   else \<lparr>headers = [(''Cache-Control'', ''no-store'')], statusCode = 500,
                          jsonBody = JObj [(''ok'', JBool False),
                                           (''error'', JStr ''internal_error'')]\<rparr>,
                   w') \<and>
           pushoverRequests w' = pushoverRequests w1 @ [form] \<and>
           kv w' = (kv w1)(getDedupeKey (vn_notificationUUID verified) \<mapsto>
                             (JStr ''1'', clock w1 + dedupeTtlSeconds config * 1000)) \<and>
           logLines w' = logLines w1 @ [entry] \<and>
           log_action entry = (if pushoverAccepts w1 then ''pushed'' else ''error'') \<and>
           log_notificationUUID entry = Some (vn_notificationUUID verified)"
      unfolding run by simp
  next
    assume "classifyNotificationType (vn_notificationType verified) \<noteq> IGNORE \<and>
      kvLive w1 (getDedupeKey (vn_notificationUUID verified)) \<noteq> None"
    then show "webhookHandler rt deps request w =
          Some (\<lparr>headers = [(''Cache-Control'', ''no-store'')], statusCode = 200,
                  jsonBody = JObj [(''ok'', JBool True), (''deduped'', JBool True)]\<rparr>,
                w1\<lparr>logLines := logLines w1 @
                     [\<lparr>log_action = ''deduped'',
                       log_notificationUUID = Some (vn_notificationUUID verified),
                       log_notificationType = Some (vn_notificationType verified),
                       log_environment = Some (vn_environment verified),
                       log_error = None\<rparr>]\<rparr>)"
      unfolding run using handleVerified_deduped [of verified deps w1 config] assms(6-9) by simp
  next
    assume "classifyNotificationType (vn_notificationType verified) = IGNORE"
    then show "webhookHandler rt deps request w =
          Some (\<lparr>headers = [(''Cache-Control'', ''no-store'')], statusCode = 200,
                  jsonBody = JObj [(''ok'', JBool True), (''ignored'', JBool True)]\<rparr>,
                w1\<lparr>logLines := logLines w1 @
                     [\<lparr>log_action = ''ignored'',
                       log_notificationUUID = Some (vn_notificationUUID verified),
                       log_notificationType = Some (vn_notificationType verified),
                       log_environment = Some (vn_environment verified),
                       log_error = None\<rparr>]\<rparr>)"
      unfolding run using handleVerified_ignored [of verified deps config w1] assms(8) by simp
  qed
qed

lemma testDependencies_simps:
  "dep_loadConfig (testDependencies v) = Inr createConfig"
  "dep_verifyNotification (testDependencies v) signedPayload config w = (Inr v, w)"
  "dep_markNotificationAsNew (testDependencies v) = markNotificationAsNew"
  "dep_sendPushover (testDependencies v) = sendPushoverNotification"
  "dep_log (testDependencies v) = consoleLog"
  by (simp_all add: testDependencies_def)

lemma postRequest_method: "req_method postRequest = Some ''POST''"
  by (simp add: postRequest_def)

lemma classify_fixtures:
  "classifyNotificationType (vn_notificationType verifiedSubscribed) = PURCHASE"
  "classifyNotificationType (vn_notificationType verifiedRenew) = PURCHASE"
  "classifyNotificationType (vn_notificationType verifiedIgnored) = IGNORE"
  by (simp_all add: classifyNotificationType_def PURCHASE_NOTIFICATION_TYPES_def
      verifiedSubscribed_def verifiedRenew_def verifiedIgnored_def)

text \<open>
  The tests "sends one push for a valid purchase event", "deduplicates already processed
  notification UUIDs" (here with the key in the database) and "ignores unrelated events".
\<close>

theorem handler_pushed_deduped_ignored_witness:
  "(\<exists>form entry w'.
      webhookHandler plainRuntime (testDependencies verifiedSubscribed) postRequest (freshWorld 0) =
        Some (\<lparr>headers = [(''Cache-Control'', ''no-store'')], statusCode = 200,
                jsonBody = JObj [(''ok'', JBool True)]\<rparr>, w') \<and>
      pushoverRequests w' = [form] \<and>
      kv w' ''appstore:notification:uuid-1'' = Some (JStr ''1'', 2592000000) \<and>
      logLines w' = [entry] \<and> log_action entry = ''pushed'' \<and>
      log_notificationUUID entry = Some ''uuid-1'') \<and>
   webhookHandler plainRuntime (testDependencies verifiedSubscribed) postRequest
     ((freshWorld 1000)\<lparr>kv := (kv (freshWorld 1000))
        (''appstore:notification:uuid-1'' \<mapsto> (JStr ''1'', 2592000000))\<rparr>) =
     Some (\<lparr>headers = [(''Cache-Control'', ''no-store'')], statusCode = 200,
             jsonBody = JObj [(''ok'', JBool True), (''deduped'', JBool True)]\<rparr>,
           (freshWorld 1000)\<lparr>kv := (kv (freshWorld 1000))
              (''appstore:notification:uuid-1'' \<mapsto> (JStr ''1'', 2592000000)),
              logLines :=
                [\<lparr>log_action = ''deduped'',
                  log_notificationUUID = Some ''uuid-1'',
                  log_notificationType = Some ''SUBSCRIBED'',
                  log_environment = Some ''Sandbox'',
                  log_error = None\<rparr>]\<rparr>) \<and>
   webhookHandler plainRuntime (testDependencies verifiedIgnored) postRequest (freshWorld 0) =
     Some (\<lparr>headers = [(''Cache-Control'', ''no-store'')], statusCode = 200,
             jsonBody = JObj [(''ok'', JBool True), (''ignored'', JBool True)]\<rparr>,
           (freshWorld 0)\<lparr>logLines :=
                [\<lparr>log_action = ''ignored'',
                  log_notificationUUID = Some ''uuid-ignore'',
                  log_notificationType = Some ''DID_CHANGE_RENEWAL_STATUS'',
                  log_environment = Some ''Production'',
                  log_error = None\<rparr>]\<rparr>)"
proof -
  define seen where
    "seen = (freshWorld 1000)\<lparr>kv := (kv (freshWorld 1000))
        (''appstore:notification:uuid-1'' \<mapsto> (JStr ''1'', 2592000000))\<rparr>"
  have online: "kvOnline (freshWorld 0)" "kvOnline seen"
    by (simp_all add: freshWorld_def seen_def)
  have key: "getDedupeKey (vn_notificationUUID verifiedSubscribed) = ''appstore:notification:uuid-1''"
    by (simp add: getDedupeKey_def verifiedSubscribed_def)
  have uuid: "vn_notificationUUID verifiedSubscribed = ''uuid-1''"
    by (simp add: verifiedSubscribed_def)
  have new: "kvLive (freshWorld 0) (getDedupeKey (vn_notificationUUID verifiedSubscribed)) = None"
    by (simp add: freshWorld_def kvLive_def)
  have live: "kvLive seen (getDedupeKey (vn_notificationUUID verifiedSubscribed)) \<noteq> None"
    by (simp add: key seen_def freshWorld_def kvLive_def)
  have accepts: "pushoverAccepts (freshWorld 0)"
    by (simp add: pushoverAccepts_def freshWorld_def responseOk_def)
  note S = testDependencies_simps [of verifiedSubscribed]
  note I = testDependencies_simps [of verifiedIgnored]
  note P = postRequest_payload [of plainRuntime]
  note T = handler_pushed_deduped_ignored
    [OF postRequest_method S(1) postRequest_secret P S(2) S(3) S(4) S(5)]
  note U = handler_pushed_deduped_ignored
    [OF postRequest_method I(1) postRequest_secret P I(2) I(3) I(4) I(5)]
  from T [OF online(1)] classify_fixtures(1) new accepts
  obtain form entry w' where r:
    "webhookHandler plainRuntime (testDependencies verifiedSubscribed) postRequest (freshWorld 0) =
       Some (\<lparr>headers = [(''Cache-Control'', ''no-store'')], statusCode = 200,
               jsonBody = JObj [(''ok'', JBool True)]\<rparr>, w')"
    "pushoverRequests w' = pushoverRequests (freshWorld 0) @ [form]"
    "kv w' = (kv (freshWorld 0))(getDedupeKey (vn_notificationUUID verifiedSubscribed) \<mapsto>
               (JStr ''1'', clock (freshWorld 0) + dedupeTtlSeconds createConfig * 1000))"
    "logLines w' = logLines (freshWorld 0) @ [entry]"
    "log_action entry = ''pushed''"
    "log_notificationUUID entry = Some (vn_notificationUUID verifiedSubscribed)"
    by auto
  have "pushoverRequests w' = [form]"
    using r(2) by (simp add: freshWorld_def)
  moreover have "kv w' ''appstore:notification:uuid-1'' = Some (JStr ''1'', 2592000000)"
    unfolding r(3) key by (simp add: freshWorld_def createConfig_def)
  moreover have "logLines w' = [entry]"
    using r(4) by (simp add: freshWorld_def)
  moreover have "log_notificationUUID entry = Some ''uuid-1''"
    using r(6) by (simp add: uuid)
  ultimately have first: "\<exists>form entry w'.
      webhookHandler plainRuntime (testDependencies verifiedSubscribed) postRequest (freshWorld 0) =
        Some (\<lparr>headers = [(''Cache-Control'', ''no-store'')], statusCode = 200,
                jsonBody = JObj [(''ok'', JBool True)]\<rparr>, w') \<and>
      pushoverRequests w' = [form] \<and>
      kv w' ''appstore:notification:uuid-1'' = Some (JStr ''1'', 2592000000) \<and>
      logLines w' = [entry] \<and> log_action entry = ''pushed'' \<and>
      log_notificationUUID entry = Some ''uuid-1''"
    using r(1) r(5) by blast
  from T [OF online(2)] classify_fixtures(1) live
  have second: "webhookHandler plainRuntime (testDependencies verifiedSubscribed) postRequest seen =
     Some (\<lparr>headers = [(''Cache-Control'', ''no-store'')], statusCode = 200,
             jsonBody = JObj [(''ok'', JBool True), (''deduped'', JBool True)]\<rparr>,
           seen\<lparr>logLines :=
                [\<lparr>log_action = ''deduped'',
                  log_notificationUUID = Some ''uuid-1'',
                  log_notificationType = Some ''SUBSCRIBED'',
                  log_environment = Some ''Sandbox'',
                  log_error = None\<rparr>]\<rparr>)"
    by (simp add: seen_def freshWorld_def verifiedSubscribed_def)
  from U [OF online(1)] classify_fixtures(3)
  have third: "webhookHandler plainRuntime (testDependencies verifiedIgnored) postRequest (freshWorld 0) =
     Some (\<lparr>headers = [(''Cache-Control'', ''no-store'')], statusCode = 200,
             jsonBody = JObj [(''ok'', JBool True), (''ignored'', JBool True)]\<rparr>,
           (freshWorld 0)\<lparr>logLines :=
                [\<lparr>log_action = ''ignored'',
                  log_notificationUUID = Some ''uuid-ignore'',
                  log_notificationType = Some ''DID_CHANGE_RENEWAL_STATUS'',
                  log_environment = Some ''Production'',
                  log_error = None\<rparr>]\<rparr>)"
    by (simp add: freshWorld_def verifiedIgnored_def)
  from first second third show ?thesis
    unfolding seen_def by simp
qed

text \<open>
  The test "returns 500 when pushover send fails", with a push channel that cannot be
  reached: the notification verifies, its type is a purchase and its UUID is new, and the
  response has status 500 and body \<^verbatim>\<open>{ok: false, error: "internal_error"}\<close>, where the
  claim expects the handler to end as pushed.
\<close>

theorem handler_push_failure_counterexample:
  "classifyNotificationType (vn_notificationType verifiedSubscribed) = PURCHASE \<and>
   kvLive ((freshWorld 0)\<lparr>pushoverReply := None\<rparr>)
     (getDedupeKey (vn_notificationUUID verifiedSubscribed)) = None \<and>
   map_option (\<lambda>(response, w'). (statusCode response, jsonBody response, map log_action (logLines w')))
     (webhookHandler plainRuntime (testDependencies verifiedSubscribed) postRequest
        ((freshWorld 0)\<lparr>pushoverReply := None\<rparr>)) =
     Some (500, JObj [(''ok'', JBool False), (''error'', JStr ''internal_error'')], [''error''])"
proof -
  have run: "webhookHandler plainRuntime (testDependencies verifiedSubscribed) postRequest
        ((freshWorld 0)\<lparr>pushoverReply := None\<rparr>) =
      Some (handleVerified (testDependencies verifiedSubscribed) createConfig verifiedSubscribed
        ((freshWorld 0)\<lparr>pushoverReply := None\<rparr>))"
    by (rule webhookHandler_verified
        [OF postRequest_method testDependencies_simps(1) postRequest_secret postRequest_payload
            testDependencies_simps(2)])
  have new: "kvLive ((freshWorld 0)\<lparr>pushoverReply := None\<rparr>)
     (getDedupeKey (vn_notificationUUID verifiedSubscribed)) = None"
    by (simp add: freshWorld_def kvLive_def)
  have "(\<lambda>(response, w'). (statusCode response, jsonBody response, map log_action (logLines w')))
      (handleVerified (testDependencies verifiedSubscribed) createConfig verifiedSubscribed
        ((freshWorld 0)\<lparr>pushoverReply := None\<rparr>)) =
      (500, JObj [(''ok'', JBool False), (''error'', JStr ''internal_error'')], [''error''])"
    using new
    by (simp add: handleVerified_def responseJson_def buildLogPayload_def consoleLog_def
        classify_fixtures testDependencies_simps markNotificationAsNew_def redisSet_def
        sendPushoverNotification_def Let_def freshWorld_def)
  with run new classify_fixtures(1) show ?thesis by simp
qed

text \<open>
  Claim C7.  For every set of dependencies and every request that reaches the dedup
  check (it passes the handler's checks, its payload verifies, its type is not ignored):
  if \<^verbatim>\<open>markNotificationAsNew\<close> throws, the response has status 500 and body
  \<^verbatim>\<open>{ok: false, error: "internal_error"}\<close>, and the handler logs the action \<^verbatim>\<open>error\<close> with
  the message thrown, in the world the failed call left.  The push dependency is not
  called: the outcome is the same whatever \<^verbatim>\<open>sendPushover\<close> is, and with the console log
  the list of push requests is the one the failed call left.
\<close>

theorem dedup_failure_is_internal_error:
  assumes "req_method request = Some ''POST''"
    and "dep_loadConfig deps = Inr config"
    and "readQueryParam (req_query request) ''secret'' = Some (webhookSecret config)"
    and "getSignedPayload rt (req_body request) = Some (Some signedPayload)"
    and "dep_verifyNotification deps signedPayload config w = (Inr verified, w1)"
    and "classifyNotificationType (vn_notificationType verified) \<noteq> IGNORE"
    and "dep_markNotificationAsNew deps (vn_notificationUUID verified) config w1 =
           (Inl (Error m), w2)"
  shows
    "webhookHandler rt deps request w =
       Some (\<lparr>headers = [(''Cache-Control'', ''no-store'')], statusCode = 500,
               jsonBody = JObj [(''ok'', JBool False), (''error'', JStr ''internal_error'')]\<rparr>,
             dep_log deps
               \<lparr>log_action = ''error'',
                log_notificationUUID = Some (vn_notificationUUID verified),
                log_notificationType = Some (vn_notificationType verified),
                log_environment = Some (vn_environment verified),
                log_error = Some m\<rparr> w2) \<and>
     webhookHandler rt (deps\<lparr>dep_sendPushover := otherPush\<rparr>) request w =
       webhookHandler rt deps request w \<and>
     (dep_log deps = consoleLog \<longrightarrow>
        (\<exists>response w'.
           webhookHandler rt deps request w = Some (response, w') \<and>
           statusCode response = 500 \<and>
           jsonBody response = JObj [(''ok'', JBool False), (''error'', JStr ''internal_error'')] \<and>
           pushoverRequests w' = pushoverRequests w2))"
  using assms
  by (simp add: webhookHandler_def handleVerified_def responseJson_def buildLogPayload_def
      Let_def consoleLog_def)

text \<open>The test "returns 500 when dedupe storage fails", with a database that does not
  answer: status 500, the error logged, and no push request.\<close>

theorem dedup_failure_is_internal_error_witness:
  "dep_markNotificationAsNew (testDependencies verifiedSubscribed)
     (vn_notificationUUID verifiedSubscribed) createConfig ((freshWorld 0)\<lparr>kvOnline := False\<rparr>) =
     (Inl (Error ''fetch failed''), (freshWorld 0)\<lparr>kvOnline := False\<rparr>) \<and>
   webhookHandler plainRuntime (testDependencies verifiedSubscribed) postRequest
     ((freshWorld 0)\<lparr>kvOnline := False\<rparr>) =
     Some (\<lparr>headers = [(''Cache-Control'', ''no-store'')], statusCode = 500,
             jsonBody = JObj [(''ok'', JBool False), (''error'', JStr ''internal_error'')]\<rparr>,
           (freshWorld 0)\<lparr>kvOnline := False,
              logLines :=
                [\<lparr>log_action = ''error'',
                  log_notificationUUID = Some ''uuid-1'',
                  log_notificationType = Some ''SUBSCRIBED'',
                  log_environment = Some ''Sandbox'',
                  log_error = Some ''fetch failed''\<rparr>]\<rparr>) \<and>
   (\<exists>response w'.
      webhookHandler plainRuntime (testDependencies verifiedSubscribed) postRequest
        ((freshWorld 0)\<lparr>kvOnline := False\<rparr>) = Some (response, w') \<and>
      statusCode response = 500 \<and>
      jsonBody response = JObj [(''ok'', JBool False), (''error'', JStr ''internal_error'')] \<and>
      pushoverRequests w' = [])"
proof -
  have mark: "dep_markNotificationAsNew (testDependencies verifiedSubscribed)
     (vn_notificationUUID verifiedSubscribed) createConfig ((freshWorld 0)\<lparr>kvOnline := False\<rparr>) =
     (Inl (Error ''fetch failed''), (freshWorld 0)\<lparr>kvOnline := False\<rparr>)"
    by (simp add: testDependencies_simps markNotificationAsNew_offline)
  have purchase: "classifyNotificationType (vn_notificationType verifiedSubscribed) \<noteq> IGNORE"
    by (simp add: classify_fixtures)
  note S = testDependencies_simps [of verifiedSubscribed]
  note T = dedup_failure_is_internal_error
    [OF postRequest_method S(1) postRequest_secret postRequest_payload [of plainRuntime]
        S(2) purchase mark]
  from T [THEN conjunct1]
  have a: "webhookHandler plainRuntime (testDependencies verifiedSubscribed) postRequest
     ((freshWorld 0)\<lparr>kvOnline := False\<rparr>) =
     Some (\<lparr>headers = [(''Cache-Control'', ''no-store'')], statusCode = 500,
             jsonBody = JObj [(''ok'', JBool False), (''error'', JStr ''internal_error'')]\<rparr>,
           (freshWorld 0)\<lparr>kvOnline := False,
              logLines :=
                [\<lparr>log_action = ''error'',
                  log_notificationUUID = Some ''uuid-1'',
                  log_notificationType = Some ''SUBSCRIBED'',
                  log_environment = Some ''Sandbox'',
                  log_error = Some ''fetch failed''\<rparr>]\<rparr>)"
    by (simp add: testDependencies_simps consoleLog_def freshWorld_def verifiedSubscribed_def)
  from T [THEN conjunct2, THEN conjunct2]
  have b: "\<exists>response w'.
      webhookHandler plainRuntime (testDependencies verifiedSubscribed) postRequest
        ((freshWorld 0)\<lparr>kvOnline := False\<rparr>) = Some (response, w') \<and>
      statusCode response = 500 \<and>
      jsonBody response = JObj [(''ok'', JBool False), (''error'', JStr ''internal_error'')] \<and>
      pushoverRequests w' = []"
    by (simp add: testDependencies_simps freshWorld_def)
  from mark a b show ?thesis by blast
qed

text \<open>
  Claim C6, at the input of the test "includes lifecycle details for trial to paid
  renewals".  The handler has no lifecycle dependency: between the dedup check and the
  push it builds the message from eight fields of the notification, none of them a
  lifecycle hint.  For the renewal of the test it answers 200 and pushes one message,
  which has no \<^verbatim>\<open>lifecycle=\<close> part, and no lifecycle state is stored under the
  transaction's key, where the test expects the message to contain
  \<^verbatim>\<open>lifecycle=FIRST_PAID_AFTER_TRIAL\<close>.
\<close>

theorem handler_renewal_message_without_lifecycle:
  "map_option (\<lambda>(response, w'). (statusCode response,
                 map (\<lambda>form. map_of form ''message'') (pushoverRequests w'),
                 kv w' (getSubscriptionStateKey ''1000001111222233'')))
     (webhookHandler plainRuntime (testDependencies verifiedRenew) postRequest (freshWorld 0)) =
   Some (200,
         [Some ''app=com.example.app | type=DID_RENEW | product=pro_yearly | env=Production | tx=100000...2233''],
         None)"
proof -
  have run: "webhookHandler plainRuntime (testDependencies verifiedRenew) postRequest (freshWorld 0) =
      Some (handleVerified (testDependencies verifiedRenew) createConfig verifiedRenew (freshWorld 0))"
    by (rule webhookHandler_verified
        [OF postRequest_method testDependencies_simps(1) postRequest_secret postRequest_payload
            testDependencies_simps(2)])
  have msg: "buildPushoverMessage
       \<lparr>msg_action = PURCHASE,
        msg_appBundleId = ''com.example.app'',
        msg_notificationType = ''DID_RENEW'',
        msg_subtype = None,
        msg_environment = ''Production'',
        msg_productId = Some ''pro_yearly'',
        msg_transactionId = Some ''1000001111222233'',
        msg_transactionReason = None,
        msg_offerDiscountType = None,
        msg_subscriptionLifecycle = None,
        msg_price = None,
        msg_currency = None\<rparr> =
     \<lparr>title = ''In-App Kauf'',
      message = ''app=com.example.app | type=DID_RENEW | product=pro_yearly | env=Production | tx=100000...2233''\<rparr>"
    by (simp add: buildPushoverMessage_def messageParts_def pushIf_def truthyString_def
        shortTransactionId_def formatAmount_def)
  have "handleVerified (testDependencies verifiedRenew) createConfig verifiedRenew (freshWorld 0) =
      (\<lparr>headers = [(''Cache-Control'', ''no-store'')], statusCode = 200,
         jsonBody = JObj [(''ok'', JBool True)]\<rparr>,
       (freshWorld 0)
         \<lparr>kv := (kv (freshWorld 0))(''appstore:notification:uuid-renew'' \<mapsto> (JStr ''1'', 2592000000)),
          pushoverRequests :=
            [[(''token'', ''pushover-app-token''), (''user'', ''pushover-user-key''),
              (''title'', ''In-App Kauf''),
              (''message'', ''app=com.example.app | type=DID_RENEW | product=pro_yearly | env=Production | tx=100000...2233''),
              (''priority'', ''0'')]],
          logLines := [buildLogPayload ''pushed'' verifiedRenew None]\<rparr>)"
    unfolding handleVerified_def classify_fixtures testDependencies_simps Let_def
    by (simp add: verifiedRenew_def noTransactionInfo_def msg markNotificationAsNew_def
        redisSet_def getDedupeKey_def kvLive_def freshWorld_def createConfig_def
        sendPushoverNotification_def responseOk_def truthyString_def consoleLog_def
        responseJson_def)
  then show ?thesis
    unfolding run
    by (simp add: responseJson_def freshWorld_def getSubscriptionStateKey_def)
qed

section \<open>Properties of the verifier resolver\<close>

text \<open>Behind tenants that the loop passes over, it goes on with the tenants that follow.\<close>

lemma verifyLoop_passOver:
  "passOver rt sp config pre lastError w = Some (lastError', w') \<Longrightarrow>
   verifyLoop rt sp config (pre @ rest) lastError w = verifyLoop rt sp config rest lastError' w'"
proof (induction pre arbitrary: lastError w)
  case Nil
  then show ?case by simp
next
  case (Cons app pre)
  then show ?case
    by (cases "tryApp rt sp config app lastError w") simp_all
qed

lemma tryApp_verified:
  assumes "(case app_bundleId app of Some b' \<Rightarrow> Some b'
            | None \<Rightarrow> extractBundleIdFromSignedPayload rt sp) = Some b"
    and "b \<noteq> []"
    and "getVerifiers rt config b (app_appAppleId app) w1 = (Inr verifiers, w2)"
    and "tryVerifiers [production verifiers, sandbox verifiers] sp lastError
           = (Some (payload, used), lastError')"
  shows "tryApp rt sp config app lastError w1 = Leave (decodeNotification rt app payload used) w2"
  using assms by (simp add: tryApp_def truthyString_def)

lemma verify_at_tenant:
  assumes "appleApps config = pre @ app # post"
    and "passOver rt sp config pre None w = Some (lastError, w1)"
    and "(case app_bundleId app of Some b' \<Rightarrow> Some b'
          | None \<Rightarrow> extractBundleIdFromSignedPayload rt sp) = Some b"
    and "b \<noteq> []"
    and "getVerifiers rt config b (app_appAppleId app) w1 = (Inr verifiers, w2)"
    and "tryVerifiers [production verifiers, sandbox verifiers] sp lastError
           = (Some (payload, used), lastError')"
  shows "verifyAppleNotification rt sp config w = (decodeNotification rt app payload used, w2)"
proof -
  have "verifyAppleNotification rt sp config w =
          verifyLoop rt sp config (app # post) lastError w1"
    unfolding verifyAppleNotification_def assms(1)
    using assms(2) by (rule verifyLoop_passOver)
  also have "\<dots> = (decodeNotification rt app payload used, w2)"
    using tryApp_verified [OF assms(3-6)] by simp
  finally show ?thesis .
qed

lemma decodeNotification_mismatch:
  assumes "app_bundleId app = Some b" and "b \<noteq> []" and "payloadBundleId payload \<noteq> Some b"
  shows "\<exists>e. decodeNotification rt app payload used = Inl e"
  using assms
  by (auto simp: decodeNotification_def Let_def ensureBundleIdMatches_def truthyString_def
      split: sum.splits option.splits)

lemma decodeNotification_mismatch_message:
  assumes "app_bundleId app = Some b" and "b \<noteq> []"
    and "ensureString (getProp payload ''notificationUUID'') ''notificationUUID'' = Inr u"
    and "ensureString (getProp payload ''notificationType'') ''notificationType'' = Inr t"
    and "payloadBundleId payload = Some b'" and "b' \<noteq> b"
  shows "decodeNotification rt app payload used =
     Inl (Error (''Bundle ID mismatch. Expected '' @ [CHR 0x27] @ b @ [CHR 0x27] @
                 '' but got '' @ [CHR 0x27] @ b' @ [CHR 0x27] @ ''.''))"
  using assms
  by (simp add: decodeNotification_def Let_def ensureBundleIdMatches_def truthyString_def)

text \<open>
  Claim C3.  Take a tenant of the configuration with an explicit, non-empty bundle id \<open>b\<close>
  at which the resolver's loop arrives (it has passed over the tenants in front of it),
  and an envelope that one of the tenant's two verifiers verifies and decodes to an
  object \<open>payload\<close>.  If the bundle id of the payload, \<^verbatim>\<open>payload.bundleId\<close> or else
  \<^verbatim>\<open>payload.data.bundleId\<close>, is not \<open>b\<close>, then \<^verbatim>\<open>verifyAppleNotification\<close> throws and returns
  no notification; when the payload has its UUID, its type and a bundle id \<open>b'\<close>, the
  error is the bundle id mismatch between \<open>b\<close> and \<open>b'\<close>.
\<close>

theorem bundle_mismatch_is_rejected:
  assumes "appleApps config = pre @ app # post"
    and "passOver rt sp config pre None w = Some (lastError, w1)"
    and "app_bundleId app = Some b"
    and "b \<noteq> []"
    and "getVerifiers rt config b (app_appAppleId app) w1 = (Inr verifiers, w2)"
    and "tryVerifiers [production verifiers, sandbox verifiers] sp lastError
           = (Some (payload, used), lastError')"
    and "payloadBundleId payload \<noteq> Some b"
  shows
    "(\<exists>e. verifyAppleNotification rt sp config w = (Inl e, w2)) \<and>
     (\<forall>u t b'.
        ensureString (getProp payload ''notificationUUID'') ''notificationUUID'' = Inr u \<and>
        ensureString (getProp payload ''notificationType'') ''notificationType'' = Inr t \<and>
        payloadBundleId payload = Some b' \<longrightarrow>
        verifyAppleNotification rt sp config w =
          (Inl (Error (''Bundle ID mismatch. Expected '' @ [CHR 0x27] @ b @ [CHR 0x27] @
                       '' but got '' @ [CHR 0x27] @ b' @ [CHR 0x27] @ ''.'')), w2))"
proof -
  have bid: "(case app_bundleId app of Some b' \<Rightarrow> Some b'
          | None \<Rightarrow> extractBundleIdFromSignedPayload rt sp) = Some b"
    using assms(3) by simp
  have run: "verifyAppleNotification rt sp config w = (decodeNotification rt app payload used, w2)"
    by (rule verify_at_tenant [OF assms(1) assms(2) bid assms(4) assms(5) assms(6)])
  have first: "\<exists>e. verifyAppleNotification rt sp config w = (Inl e, w2)"
    unfolding run using decodeNotification_mismatch [OF assms(3) assms(4) assms(7)] by simp
  have second: "verifyAppleNotification rt sp config w =
          (Inl (Error (''Bundle ID mismatch. Expected '' @ [CHR 0x27] @ b @ [CHR 0x27] @
                       '' but got '' @ [CHR 0x27] @ b' @ [CHR 0x27] @ ''.'')), w2)"
    if "ensureString (getProp payload ''notificationUUID'') ''notificationUUID'' = Inr u"
       "ensureString (getProp payload ''notificationType'') ''notificationType'' = Inr t"
       "payloadBundleId payload = Some b'" for u t b'
  proof -
    have "b' \<noteq> b" using that(3) assms(7) by simp
    then show ?thesis
      unfolding run
      using decodeNotification_mismatch_message [OF assms(3) assms(4) that(1) that(2) that(3)]
      by simp
  qed
  from first second show ?thesis by blast
qed

lemma tryVerifiers_production_first:
  "attempt p sp = Inr payload \<Longrightarrow>
   tryVerifiers [p, s] sp lastError = (Some (payload, p), lastError)"
  by simp

lemma tryVerifiers_sandbox_second:
  "attempt p sp = Inl e \<Longrightarrow> attempt s sp = Inr payload \<Longrightarrow>
   tryVerifiers [p, s] sp lastError = (Some (payload, s), Some e)"
  by simp

lemma tryVerifiers_none:
  "attempt p sp = Inl e \<Longrightarrow> attempt s sp = Inl e' \<Longrightarrow>
   tryVerifiers [p, s] sp lastError = (None, Some e')"
  by simp

lemma decodeTransactionInfo_absent:
  "\<not> truthyString sti \<Longrightarrow> decodeTransactionInfo rt used sti = Inr None"
  by (simp add: decodeTransactionInfo_def)

lemma decodeTransactionInfo_verified:
  assumes "s \<noteq> []"
    and "verifyAndDecodeTransaction used s = Inr decoded"
    and "decoded \<noteq> JNull"
  shows "decodeTransactionInfo rt used (Some s) =
     Inr (Some \<lparr>tx_productId = optionalString (getProp decoded ''productId''),
                 tx_transactionId = optionalString (getProp decoded ''transactionId''),
                 tx_originalTransactionId = None,
                 tx_price = optionalFiniteNumber rt (getProp decoded ''price''),
                 tx_currency = optionalString (getProp decoded ''currency''),
                 tx_purchaseDate = None,
                 tx_originalPurchaseDate = None,
                 tx_offerDiscountType = None,
                 tx_transactionReason = None\<rparr>)"
  using assms by (cases decoded) (simp_all add: decodeTransactionInfo_def truthyString_def)

lemma decodeTransactionInfo_rejected:
  assumes "s \<noteq> []"
    and "\<forall>decoded. verifyAndDecodeTransaction used s = Inr decoded \<longrightarrow> decoded = JNull"
  shows "\<exists>err. decodeTransactionInfo rt used (Some s) = Inl err"
  using assms
  by (cases "verifyAndDecodeTransaction used s")
    (simp_all add: decodeTransactionInfo_def truthyString_def)

text \<open>The decoder returns the notification of a payload that passes its checks, and
  throws on a payload that fails one of them.\<close>

lemma decodeNotification_passes:
  assumes "getProp payload ''notificationUUID'' = Some (JStr u)" and "u \<noteq> []"
    and "getProp payload ''notificationType'' = Some (JStr t)" and "t \<noteq> []"
    and "payloadBundleId payload = Some bid"
    and "app_bundleId app = None \<or> app_bundleId app = Some bid"
    and "decodeTransactionInfo rt used
           (optionalString (Option.bind (dataObject payload)
              (\<lambda>d. getProp d ''signedTransactionInfo''))) = Inr tx"
  shows "decodeNotification rt app payload used =
     Inr \<lparr>vn_notificationUUID = u,
          vn_notificationType = t,
          vn_subtype = optionalString (getProp payload ''subtype''),
          vn_environment =
            (case optionalNonEmptyString (getProp payload ''environment'') of
               Some e \<Rightarrow> e
             | None \<Rightarrow>
                 (case optionalNonEmptyString
                         (Option.bind (dataObject payload) (\<lambda>d. getProp d ''environment'')) of
                    Some e \<Rightarrow> e
                  | None \<Rightarrow> ''UNKNOWN'')),
          vn_bundleId = bid,
          vn_appAppleId = app_appAppleId app,
          vn_pushoverUserKey = app_pushoverUserKey app,
          vn_pushoverDevice = app_pushoverDevice app,
          vn_signedTransactionInfo =
            optionalString (Option.bind (dataObject payload)
              (\<lambda>d. getProp d ''signedTransactionInfo'')),
          vn_transactionInfo = tx\<rparr>"
  using assms
  by (auto simp: decodeNotification_def Let_def ensureString_def ensureBundleIdMatches_def
      truthyString_def)

lemma ensureString_throws:
  "\<forall>s. v = Some (JStr s) \<longrightarrow> s = [] \<Longrightarrow> \<exists>err. ensureString v field = Inl err"
  by (auto simp: ensureString_def split: option.splits json.splits)

lemma decodeNotification_fails:
  assumes "(\<forall>u. getProp payload ''notificationUUID'' = Some (JStr u) \<longrightarrow> u = []) \<or>
     (\<forall>t. getProp payload ''notificationType'' = Some (JStr t) \<longrightarrow> t = []) \<or>
     payloadBundleId payload = None \<or>
     (\<exists>b. app_bundleId app = Some b \<and> b \<noteq> [] \<and> payloadBundleId payload \<noteq> Some b) \<or>
     (\<exists>err. decodeTransactionInfo rt used
        (optionalString (Option.bind (dataObject payload)
           (\<lambda>d. getProp d ''signedTransactionInfo''))) = Inl err)"
  shows "\<exists>err. decodeNotification rt app payload used = Inl err"
proof -
  from assms show ?thesis
  proof (elim disjE exE conjE)
    assume "\<forall>u. getProp payload ''notificationUUID'' = Some (JStr u) \<longrightarrow> u = []"
    from ensureString_throws [OF this, of "''notificationUUID''"]
    show ?thesis by (auto simp: decodeNotification_def)
  next
    assume "\<forall>t. getProp payload ''notificationType'' = Some (JStr t) \<longrightarrow> t = []"
    from ensureString_throws [OF this, of "''notificationType''"]
    show ?thesis by (auto simp: decodeNotification_def split: sum.splits)
  next
    assume "payloadBundleId payload = None"
    then show ?thesis by (auto simp: decodeNotification_def Let_def split: sum.splits)
  next
    fix b
    assume "app_bundleId app = Some b" "b \<noteq> []" "payloadBundleId payload \<noteq> Some b"
    then show ?thesis by (rule decodeNotification_mismatch)
  next
    fix err
    assume "decodeTransactionInfo rt used
        (optionalString (Option.bind (dataObject payload)
           (\<lambda>d. getProp d ''signedTransactionInfo''))) = Inl err"
    then show ?thesis
      by (auto simp: decodeNotification_def Let_def split: sum.splits option.splits)
  qed
qed

text \<open>
  Claim C4, as the code has it.  Take a tenant at which the resolver's loop arrives, with
  a bundle id for its verifiers.  The production verifier is tried first: when its
  attempt succeeds with a payload, it is the verifier selected, whatever the sandbox
  verifier would do; when the production attempt throws and the sandbox attempt succeeds
  with a payload, the sandbox verifier is selected.  What \<^verbatim>\<open>verifyAppleNotification\<close> then
  returns depends on the payload of the selected verifier.  It returns the notification
  of that payload with the tenant's app id and push routing when the payload has
  \<^verbatim>\<open>notificationUUID\<close> and \<^verbatim>\<open>notificationType\<close> as non-empty strings, a bundle id (at
  \<^verbatim>\<open>payload.bundleId\<close> or else \<^verbatim>\<open>payload.data.bundleId\<close>) that is the tenant's explicit one
  if the tenant has one, and either no signed transaction under
  \<^verbatim>\<open>payload.data.signedTransactionInfo\<close> or one that the selected verifier verifies and
  decodes to a value other than \<^verbatim>\<open>null\<close>.  It throws when the payload fails one of these
  checks.
\<close>

theorem production_then_sandbox:
  assumes "appleApps config = pre @ app # post"
    and "passOver rt sp config pre None w = Some (lastError, w1)"
    and "(case app_bundleId app of Some b' \<Rightarrow> Some b'
          | None \<Rightarrow> extractBundleIdFromSignedPayload rt sp) = Some b"
    and "b \<noteq> []"
    and "getVerifiers rt config b (app_appAppleId app) w1 = (Inr verifiers, w2)"
    and "attempt (production verifiers) sp = Inr payload \<and> used = production verifiers \<or>
         (\<exists>e. attempt (production verifiers) sp = Inl e) \<and>
         attempt (sandbox verifiers) sp = Inr payload \<and> used = sandbox verifiers"
    and "sti = optionalString (Option.bind (dataObject payload)
                 (\<lambda>d. getProp d ''signedTransactionInfo''))"
  shows
    "fst (tryVerifiers [production verifiers, sandbox verifiers] sp lastError) =
       Some (payload, used) \<and>
     (\<forall>u t bid tx.
        getProp payload ''notificationUUID'' = Some (JStr u) \<and> u \<noteq> [] \<and>
        getProp payload ''notificationType'' = Some (JStr t) \<and> t \<noteq> [] \<and>
        payloadBundleId payload = Some bid \<and>
        (app_bundleId app = None \<or> app_bundleId app = Some bid) \<and>
        (\<not> truthyString sti \<and> tx = None \<or>
         (\<exists>s decoded.
            sti = Some s \<and> s \<noteq> [] \<and>
            verifyAndDecodeTransaction used s = Inr decoded \<and> decoded \<noteq> JNull \<and>
            tx = Some \<lparr>tx_productId = optionalString (getProp decoded ''productId''),
                        tx_transactionId = optionalString (getProp decoded ''transactionId''),
                        tx_originalTransactionId = None,
                        tx_price = optionalFiniteNumber rt (getProp decoded ''price''),
                        tx_currency = optionalString (getProp decoded ''currency''),
                        tx_purchaseDate = None,
                        tx_originalPurchaseDate = None,
                        tx_offerDiscountType = None,
                        tx_transactionReason = None\<rparr>)) \<longrightarrow>
        verifyAppleNotification rt sp config w =
          (Inr \<lparr>vn_notificationUUID = u,
                vn_notificationType = t,
                vn_subtype = optionalString (getProp payload ''subtype''),
                vn_environment =
                  (case optionalNonEmptyString (getProp payload ''environment'') of
                     Some e \<Rightarrow> e
                   | None \<Rightarrow>
                       (case optionalNonEmptyString
                               (Option.bind (dataObject payload)
                                  (\<lambda>d. getProp d ''environment'')) of
                          Some e \<Rightarrow> e
                        | None \<Rightarrow> ''UNKNOWN'')),
                vn_bundleId = bid,
                vn_appAppleId = app_appAppleId app,
                vn_pushoverUserKey = app_pushoverUserKey app,
                vn_pushoverDevice = app_pushoverDevice app,
                vn_signedTransactionInfo = sti,
                vn_transactionInfo = tx\<rparr>,
           w2)) \<and>
     ((\<forall>u. getProp payload ''notificationUUID'' = Some (JStr u) \<longrightarrow> u = []) \<or>
      (\<forall>t. getProp payload ''notificationType'' = Some (JStr t) \<longrightarrow> t = []) \<or>
      payloadBundleId payload = None \<or>
      (\<exists>b'. app_bundleId app = Some b' \<and> payloadBundleId payload \<noteq> Some b') \<or>
      (\<exists>s. sti = Some s \<and> s \<noteq> [] \<and>
            (\<forall>decoded. verifyAndDecodeTransaction used s = Inr decoded \<longrightarrow> decoded = JNull)) \<longrightarrow>
      (\<exists>err. verifyAppleNotification rt sp config w = (Inl err, w2)))"
proof -
  from assms(6)
  have tried: "\<exists>lastError'. tryVerifiers [production verifiers, sandbox verifiers] sp lastError =
      (Some (payload, used), lastError')"
    by auto
  then obtain lastError' where
    t: "tryVerifiers [production verifiers, sandbox verifiers] sp lastError =
      (Some (payload, used), lastError')"
    by blast
  have run: "verifyAppleNotification rt sp config w = (decodeNotification rt app payload used, w2)"
    by (rule verify_at_tenant [OF assms(1) assms(2) assms(3) assms(4) assms(5) t])
  have selected: "fst (tryVerifiers [production verifiers, sandbox verifiers] sp lastError) =
       Some (payload, used)"
    using t by simp
  have returns: "verifyAppleNotification rt sp config w =
          (Inr \<lparr>vn_notificationUUID = u,
                vn_notificationType = t,
                vn_subtype = optionalString (getProp payload ''subtype''),
                vn_environment =
                  (case optionalNonEmptyString (getProp payload ''environment'') of
                     Some e \<Rightarrow> e
                   | None \<Rightarrow>
                       (case optionalNonEmptyString
                               (Option.bind (dataObject payload)
                                  (\<lambda>d. getProp d ''environment'')) of
                          Some e \<Rightarrow> e
                        | None \<Rightarrow> ''UNKNOWN'')),
                vn_bundleId = bid,
                vn_appAppleId = app_appAppleId app,
                vn_pushoverUserKey = app_pushoverUserKey app,
                vn_pushoverDevice = app_pushoverDevice app,
                vn_signedTransactionInfo = sti,
                vn_transactionInfo = tx\<rparr>,
           w2)"
    if checks: "getProp payload ''notificationUUID'' = Some (JStr u) \<and> u \<noteq> [] \<and>
        getProp payload ''notificationType'' = Some (JStr t) \<and> t \<noteq> [] \<and>
        payloadBundleId payload = Some bid \<and>
        (app_bundleId app = None \<or> app_bundleId app = Some bid) \<and>
        (\<not> truthyString sti \<and> tx = None \<or>
         (\<exists>s decoded.
            sti = Some s \<and> s \<noteq> [] \<and>
            verifyAndDecodeTransaction used s = Inr decoded \<and> decoded \<noteq> JNull \<and>
            tx = Some \<lparr>tx_productId = optionalString (getProp decoded ''productId''),
                        tx_transactionId = optionalString (getProp decoded ''transactionId''),
                        tx_originalTransactionId = None,
                        tx_price = optionalFiniteNumber rt (getProp decoded ''price''),
                        tx_currency = optionalString (getProp decoded ''currency''),
                        tx_purchaseDate = None,
                        tx_originalPurchaseDate = None,
                        tx_offerDiscountType = None,
                        tx_transactionReason = None\<rparr>))"
    for u t bid tx
  proof -
    from checks have "decodeTransactionInfo rt used sti = Inr tx"
      using decodeTransactionInfo_absent [of sti rt used]
        decodeTransactionInfo_verified [of _ used _ rt]
      by auto
    then have tx: "decodeTransactionInfo rt used
           (optionalString (Option.bind (dataObject payload)
              (\<lambda>d. getProp d ''signedTransactionInfo''))) = Inr tx"
      unfolding assms(7) .
    from checks have c: "getProp payload ''notificationUUID'' = Some (JStr u)" "u \<noteq> []"
      "getProp payload ''notificationType'' = Some (JStr t)" "t \<noteq> []"
      "payloadBundleId payload = Some bid"
      "app_bundleId app = None \<or> app_bundleId app = Some bid"
      by simp_all
    show ?thesis
      unfolding run assms(7)
      using decodeNotification_passes [OF c tx] by simp
  qed
  have throws: "\<exists>err. verifyAppleNotification rt sp config w = (Inl err, w2)"
    if fails: "(\<forall>u. getProp payload ''notificationUUID'' = Some (JStr u) \<longrightarrow> u = []) \<or>
      (\<forall>t. getProp payload ''notificationType'' = Some (JStr t) \<longrightarrow> t = []) \<or>
      payloadBundleId payload = None \<or>
      (\<exists>b'. app_bundleId app = Some b' \<and> payloadBundleId payload \<noteq> Some b') \<or>
      (\<exists>s. sti = Some s \<and> s \<noteq> [] \<and>
            (\<forall>decoded. verifyAndDecodeTransaction used s = Inr decoded \<longrightarrow> decoded = JNull))"
  proof -
    have explicit: "b' = b" if "app_bundleId app = Some b'" for b'
      using assms(3) that by simp
    have rejected: "\<exists>err. decodeTransactionInfo rt used
        (optionalString (Option.bind (dataObject payload)
           (\<lambda>d. getProp d ''signedTransactionInfo''))) = Inl err"
      if "sti = Some s" "s \<noteq> []"
        "\<forall>decoded. verifyAndDecodeTransaction used s = Inr decoded \<longrightarrow> decoded = JNull" for s
      using decodeTransactionInfo_rejected [OF that(2) that(3), of rt] that(1)
      unfolding assms(7) by simp
    from fails explicit rejected assms(4)
    have "(\<forall>u. getProp payload ''notificationUUID'' = Some (JStr u) \<longrightarrow> u = []) \<or>
     (\<forall>t. getProp payload ''notificationType'' = Some (JStr t) \<longrightarrow> t = []) \<or>
     payloadBundleId payload = None \<or>
     (\<exists>b. app_bundleId app = Some b \<and> b \<noteq> [] \<and> payloadBundleId payload \<noteq> Some b) \<or>
     (\<exists>err. decodeTransactionInfo rt used
        (optionalString (Option.bind (dataObject payload)
           (\<lambda>d. getProp d ''signedTransactionInfo''))) = Inl err)"
      by blast
    from decodeNotification_fails [OF this]
    show ?thesis unfolding run by simp
  qed
  from selected returns throws show ?thesis
    by blast
qed


text \<open>The example platform finds its certificate, and builds for a bundle id and an app id
  the pair of stub verifiers, which it leaves in the cache.\<close>

lemma loadAppleRootCAs_example:
  "loadAppleRootCAs (exampleRuntime answers) ''certs/apple'' = Inr [''certificate'']"
  by (simp add: loadAppleRootCAs_def resolveRootCaDirectory_def exampleRuntime_def
      hasCertExtension_def endsWith_def toLowerChar_def)

lemma getVerifiers_example:
  assumes "verifierCache w (exampleKey b appId) = None"
  shows "getVerifiers (exampleRuntime answers) twoApps b appId w =
     (Inr (examplePair answers b appId),
      w\<lparr>verifierCache := (verifierCache w)(exampleKey b appId \<mapsto> examplePair answers b appId)\<rparr>)"
proof -
  have dir: "appleRootCaDir twoApps = ''certs/apple''" "appleEnableOnlineChecks twoApps = False"
    by (simp_all add: twoApps_def createConfig_def)
  have key: "getVerifierCacheKey (exampleRuntime answers) twoApps b appId = exampleKey b appId"
    by (simp add: getVerifierCacheKey_def resolveRootCaDirectory_def dir exampleRuntime_def
        exampleKey_def)
  have made: "createVerifiers (exampleRuntime answers) twoApps b appId =
      Inr (examplePair answers b appId)"
    unfolding createVerifiers_def dir loadAppleRootCAs_example
    by (simp add: exampleRuntime_def examplePair_def)
  show ?thesis
    unfolding getVerifiers_def key Let_def using assms by (simp add: made)
qed

lemma attempt_examplePair:
  "attempt (production (examplePair answers b appId)) sp =
     (case answers PRODUCTION_ENV b of Inl e \<Rightarrow> Inl e | Inr raw \<Rightarrow> ensureNotificationPayload raw)"
  "attempt (sandbox (examplePair answers b appId)) sp =
     (case answers SANDBOX_ENV b of Inl e \<Rightarrow> Inl e | Inr raw \<Rightarrow> ensureNotificationPayload raw)"
  by (simp_all add: attempt_def stubVerifier_def examplePair_def)

lemma examplePayload_object: "ensureNotificationPayload (examplePayload b) = Inr (examplePayload b)"
  by (simp add: ensureNotificationPayload_def examplePayload_def)

lemma trim_plain:
  "trim ''com.other.app'' = ''com.other.app''"
  "trim ''com.example.app'' = ''com.example.app''"
  "trim ''Sandbox'' = ''Sandbox''"
  by (simp_all add: trim_def isWhiteSpace_def)

lemma examplePayload_bundle:
  "payloadBundleId (examplePayload ''com.other.app'') = Some ''com.other.app''"
  "payloadBundleId (examplePayload ''com.example.app'') = Some ''com.example.app''"
  by (simp_all add: payloadBundleId_def examplePayload_def optionalNonEmptyString_def
      dataObject_def trim_plain)

lemma decodeNotification_example:
  "decodeNotification rt exampleApp (examplePayload ''com.example.app'') used =
     Inr (verifiedSubscribed\<lparr>vn_transactionInfo := None\<rparr>)"
  unfolding decodeNotification_def Let_def examplePayload_bundle
  by (simp add: examplePayload_def ensureString_def dataObject_def exampleApp_def
      ensureBundleIdMatches_def truthyString_def optionalString_def decodeTransactionInfo_def
      optionalNonEmptyString_def trim_plain verifiedSubscribed_def)

lemma decodeNotification_other:
  "decodeNotification rt exampleApp (examplePayload ''com.other.app'') used =
     Inl (Error (''Bundle ID mismatch. Expected '' @ [CHR 0x27] @ ''com.example.app'' @ [CHR 0x27] @
                 '' but got '' @ [CHR 0x27] @ ''com.other.app'' @ [CHR 0x27] @ ''.''))"
  unfolding decodeNotification_def Let_def examplePayload_bundle
  by (simp add: examplePayload_def ensureString_def exampleApp_def
      ensureBundleIdMatches_def truthyString_def)

text \<open>With verifiers that accept under \<^verbatim>\<open>com.example.app\<close> only, the loop passes over the
  first tenant of \<open>twoApps\<close> and builds the verifiers of the second.\<close>

lemma passOver_firstApp:
  "passOver (exampleRuntime (acceptsOnly environment ''com.example.app'' payload)) sp twoApps
     [firstApp] None (freshWorld 0) =
   Some (Some (Error ''VerificationException''),
         (freshWorld 0)\<lparr>verifierCache :=
            [exampleKey ''com.first.app'' 1111111111 \<mapsto>
               examplePair (acceptsOnly environment ''com.example.app'' payload)
                 ''com.first.app'' 1111111111]\<rparr>)"
proof -
  have cache: "verifierCache (freshWorld 0) (exampleKey ''com.first.app'' 1111111111) = None"
    by (simp add: freshWorld_def)
  have step: "tryApp (exampleRuntime (acceptsOnly environment ''com.example.app'' payload)) sp
      twoApps firstApp None (freshWorld 0) =
      Continue (Some (Error ''VerificationException''))
        ((freshWorld 0)\<lparr>verifierCache :=
           (verifierCache (freshWorld 0))(exampleKey ''com.first.app'' 1111111111 \<mapsto>
              examplePair (acceptsOnly environment ''com.example.app'' payload)
                ''com.first.app'' 1111111111)\<rparr>)"
    unfolding tryApp_def Let_def
    by (simp add: firstApp_def truthyString_def getVerifiers_example [OF cache]
        attempt_examplePair acceptsOnly_def)
  have empty: "verifierCache (freshWorld 0) = Map.empty"
    by (simp add: freshWorld_def)
  show ?thesis
    by (simp add: step empty)
qed

lemma getVerifiers_exampleApp:
  "getVerifiers (exampleRuntime answers) twoApps ''com.example.app'' (app_appAppleId exampleApp)
     ((freshWorld 0)\<lparr>verifierCache :=
        [exampleKey ''com.first.app'' 1111111111 \<mapsto>
           examplePair answers ''com.first.app'' 1111111111]\<rparr>) =
   (Inr (examplePair answers ''com.example.app'' 1234567890), resolvedWorld answers)"
proof -
  have id: "app_appAppleId exampleApp = 1234567890"
    by (simp add: exampleApp_def)
  have cache: "verifierCache ((freshWorld 0)\<lparr>verifierCache :=
        [exampleKey ''com.first.app'' 1111111111 \<mapsto>
           examplePair answers ''com.first.app'' 1111111111]\<rparr>)
        (exampleKey ''com.example.app'' 1234567890) = None"
    by (simp add: exampleKey_def)
  show ?thesis
    unfolding id getVerifiers_example [OF cache] by (simp add: resolvedWorld_def)
qed

lemma twoApps_apps: "appleApps twoApps = [firstApp] @ exampleApp # []"
  by (simp add: twoApps_def)

lemma exampleApp_bundle: "app_bundleId exampleApp = Some ''com.example.app''"
  by (simp add: exampleApp_def)


text \<open>
  An envelope that verifies under the production verifier of the tenant
  \<^verbatim>\<open>com.example.app\<close>, the second of two tenants, and decodes to the bundle id
  \<^verbatim>\<open>com.other.app\<close>: the resolver throws the mismatch error.
\<close>

theorem bundle_mismatch_is_rejected_witness:
  "appleApps twoApps = [firstApp] @ exampleApp # [] \<and>
   app_bundleId exampleApp = Some ''com.example.app'' \<and>
   tryVerifiers
     [production (examplePair
        (acceptsOnly PRODUCTION_ENV ''com.example.app'' (examplePayload ''com.other.app''))
        ''com.example.app'' 1234567890),
      sandbox (examplePair
        (acceptsOnly PRODUCTION_ENV ''com.example.app'' (examplePayload ''com.other.app''))
        ''com.example.app'' 1234567890)]
     ''jws-data'' (Some (Error ''VerificationException'')) =
     (Some (examplePayload ''com.other.app'',
            production (examplePair
              (acceptsOnly PRODUCTION_ENV ''com.example.app'' (examplePayload ''com.other.app''))
              ''com.example.app'' 1234567890)),
      Some (Error ''VerificationException'')) \<and>
   payloadBundleId (examplePayload ''com.other.app'') = Some ''com.other.app'' \<and>
   verifyAppleNotification
     (exampleRuntime
        (acceptsOnly PRODUCTION_ENV ''com.example.app'' (examplePayload ''com.other.app'')))
     ''jws-data'' twoApps (freshWorld 0) =
     (Inl (Error (''Bundle ID mismatch. Expected '' @ [CHR 0x27] @ ''com.example.app'' @
                  [CHR 0x27] @ '' but got '' @ [CHR 0x27] @ ''com.other.app'' @ [CHR 0x27] @ ''.'')),
      resolvedWorld
        (acceptsOnly PRODUCTION_ENV ''com.example.app'' (examplePayload ''com.other.app'')))"
proof -
  define answers where
    "answers = acceptsOnly PRODUCTION_ENV ''com.example.app'' (examplePayload ''com.other.app'')"
  have tried: "tryVerifiers
     [production (examplePair answers ''com.example.app'' 1234567890),
      sandbox (examplePair answers ''com.example.app'' 1234567890)]
     ''jws-data'' (Some (Error ''VerificationException'')) =
     (Some (examplePayload ''com.other.app'',
            production (examplePair answers ''com.example.app'' 1234567890)),
      Some (Error ''VerificationException''))"
    by (simp add: attempt_examplePair answers_def acceptsOnly_def examplePayload_object)
  have differs: "payloadBundleId (examplePayload ''com.other.app'') \<noteq> Some ''com.example.app''"
    by (simp add: examplePayload_bundle)
  have uuid: "ensureString (getProp (examplePayload ''com.other.app'') ''notificationUUID'')
      ''notificationUUID'' = Inr ''uuid-1''"
    and type: "ensureString (getProp (examplePayload ''com.other.app'') ''notificationType'')
      ''notificationType'' = Inr ''SUBSCRIBED''"
    by (simp_all add: examplePayload_def ensureString_def)
  have nonempty: "''com.example.app'' \<noteq> []"
    by simp
  note T = bundle_mismatch_is_rejected
    [OF twoApps_apps passOver_firstApp [of PRODUCTION_ENV "examplePayload ''com.other.app''",
          folded answers_def]
        exampleApp_bundle nonempty getVerifiers_exampleApp tried differs]
  from T [THEN conjunct2] uuid type examplePayload_bundle(1)
  have "verifyAppleNotification (exampleRuntime answers) ''jws-data'' twoApps (freshWorld 0) =
     (Inl (Error (''Bundle ID mismatch. Expected '' @ [CHR 0x27] @ ''com.example.app'' @
                  [CHR 0x27] @ '' but got '' @ [CHR 0x27] @ ''com.other.app'' @ [CHR 0x27] @ ''.'')),
      resolvedWorld answers)"
    by blast
  with twoApps_apps exampleApp_bundle tried examplePayload_bundle(1)
  show ?thesis unfolding answers_def by blast
qed

text \<open>
  Claim C4 fails where the payload that verifies under sandbox does not pass the decoder:
  production verification fails for the tenant \<^verbatim>\<open>com.example.app\<close>, sandbox verification
  succeeds, the payload names the bundle \<^verbatim>\<open>com.other.app\<close>, and the resolver throws.
\<close>

theorem sandbox_success_rejected_counterexample:
  "fst (getVerifiers
     (exampleRuntime
        (acceptsOnly SANDBOX_ENV ''com.example.app'' (examplePayload ''com.other.app'')))
     twoApps ''com.example.app'' 1234567890 (freshWorld 0)) =
     Inr (examplePair
        (acceptsOnly SANDBOX_ENV ''com.example.app'' (examplePayload ''com.other.app''))
        ''com.example.app'' 1234567890) \<and>
   verifyAndDecodeNotification
     (production (examplePair
        (acceptsOnly SANDBOX_ENV ''com.example.app'' (examplePayload ''com.other.app''))
        ''com.example.app'' 1234567890)) ''jws-data'' = Inl (Error ''VerificationException'') \<and>
   verifyAndDecodeNotification
     (sandbox (examplePair
        (acceptsOnly SANDBOX_ENV ''com.example.app'' (examplePayload ''com.other.app''))
        ''com.example.app'' 1234567890)) ''jws-data'' = Inr (examplePayload ''com.other.app'') \<and>
   fst (verifyAppleNotification
     (exampleRuntime
        (acceptsOnly SANDBOX_ENV ''com.example.app'' (examplePayload ''com.other.app'')))
     ''jws-data'' twoApps (freshWorld 0)) =
     Inl (Error (''Bundle ID mismatch. Expected '' @ [CHR 0x27] @ ''com.example.app'' @
                 [CHR 0x27] @ '' but got '' @ [CHR 0x27] @ ''com.other.app'' @ [CHR 0x27] @ ''.''))"
proof -
  define answers where
    "answers = acceptsOnly SANDBOX_ENV ''com.example.app'' (examplePayload ''com.other.app'')"
  have cache: "verifierCache (freshWorld 0) (exampleKey ''com.example.app'' 1234567890) = None"
    by (simp add: freshWorld_def)
  have pair: "fst (getVerifiers (exampleRuntime answers) twoApps ''com.example.app'' 1234567890
      (freshWorld 0)) = Inr (examplePair answers ''com.example.app'' 1234567890)"
    by (simp add: getVerifiers_example [OF cache])
  have p: "verifyAndDecodeNotification
      (production (examplePair answers ''com.example.app'' 1234567890)) ''jws-data''
      = Inl (Error ''VerificationException'')"
    and s: "verifyAndDecodeNotification
      (sandbox (examplePair answers ''com.example.app'' 1234567890)) ''jws-data''
      = Inr (examplePayload ''com.other.app'')"
    by (simp_all add: examplePair_def stubVerifier_def answers_def acceptsOnly_def)
  have tried: "tryVerifiers
     [production (examplePair answers ''com.example.app'' 1234567890),
      sandbox (examplePair answers ''com.example.app'' 1234567890)]
     ''jws-data'' (Some (Error ''VerificationException'')) =
     (Some (examplePayload ''com.other.app'',
            sandbox (examplePair answers ''com.example.app'' 1234567890)),
      Some (Error ''VerificationException''))"
    by (simp add: attempt_examplePair answers_def acceptsOnly_def examplePayload_object)
  have bid: "(case app_bundleId exampleApp of Some b' \<Rightarrow> Some b'
      | None \<Rightarrow> extractBundleIdFromSignedPayload (exampleRuntime answers) ''jws-data'')
      = Some ''com.example.app''"
    by (simp add: exampleApp_bundle)
  have nonempty: "''com.example.app'' \<noteq> []"
    by simp
  have "verifyAppleNotification (exampleRuntime answers) ''jws-data'' twoApps (freshWorld 0) =
      (decodeNotification (exampleRuntime answers) exampleApp (examplePayload ''com.other.app'')
         (sandbox (examplePair answers ''com.example.app'' 1234567890)),
       resolvedWorld answers)"
    by (rule verify_at_tenant
        [OF twoApps_apps passOver_firstApp [of SANDBOX_ENV "examplePayload ''com.other.app''",
              folded answers_def]
            bid nonempty getVerifiers_exampleApp tried])
  then have "fst (verifyAppleNotification (exampleRuntime answers) ''jws-data'' twoApps
      (freshWorld 0)) =
     Inl (Error (''Bundle ID mismatch. Expected '' @ [CHR 0x27] @ ''com.example.app'' @
                 [CHR 0x27] @ '' but got '' @ [CHR 0x27] @ ''com.other.app'' @ [CHR 0x27] @ ''.''))"
    by (simp add: decodeNotification_other)
  with pair p s show ?thesis unfolding answers_def by blast
qed

text \<open>
  Two tenants; the envelope fails under both verifiers of the first, fails under the
  production verifier of the second and verifies under its sandbox verifier, with a
  payload of the second tenant's bundle and no signed transaction: the sandbox verifier
  is selected and the resolver returns the notification with the second tenant's routing.
\<close>

theorem production_then_sandbox_witness:
  "appleApps twoApps = [firstApp] @ exampleApp # [] \<and>
   attempt (production (examplePair
      (acceptsOnly SANDBOX_ENV ''com.example.app'' (examplePayload ''com.example.app''))
      ''com.example.app'' 1234567890)) ''jws-data'' = Inl (Error ''VerificationException'') \<and>
   attempt (sandbox (examplePair
      (acceptsOnly SANDBOX_ENV ''com.example.app'' (examplePayload ''com.example.app''))
      ''com.example.app'' 1234567890)) ''jws-data'' = Inr (examplePayload ''com.example.app'') \<and>
   fst (tryVerifiers
      [production (examplePair
         (acceptsOnly SANDBOX_ENV ''com.example.app'' (examplePayload ''com.example.app''))
         ''com.example.app'' 1234567890),
       sandbox (examplePair
         (acceptsOnly SANDBOX_ENV ''com.example.app'' (examplePayload ''com.example.app''))
         ''com.example.app'' 1234567890)]
      ''jws-data'' (Some (Error ''VerificationException''))) =
     Some (examplePayload ''com.example.app'',
           sandbox (examplePair
             (acceptsOnly SANDBOX_ENV ''com.example.app'' (examplePayload ''com.example.app''))
             ''com.example.app'' 1234567890)) \<and>
   verifyAppleNotification
     (exampleRuntime
        (acceptsOnly SANDBOX_ENV ''com.example.app'' (examplePayload ''com.example.app'')))
     ''jws-data'' twoApps (freshWorld 0) =
     (Inr \<lparr>vn_notificationUUID = ''uuid-1'',
           vn_notificationType = ''SUBSCRIBED'',
           vn_subtype = None,
           vn_environment = ''Sandbox'',
           vn_bundleId = ''com.example.app'',
           vn_appAppleId = 1234567890,
           vn_pushoverUserKey = ''pushover-user-key'',
           vn_pushoverDevice = None,
           vn_signedTransactionInfo = None,
           vn_transactionInfo = None\<rparr>,
      resolvedWorld
        (acceptsOnly SANDBOX_ENV ''com.example.app'' (examplePayload ''com.example.app'')))"
proof -
  define answers where
    "answers = acceptsOnly SANDBOX_ENV ''com.example.app'' (examplePayload ''com.example.app'')"
  have p: "attempt (production (examplePair answers ''com.example.app'' 1234567890)) ''jws-data''
      = Inl (Error ''VerificationException'')"
    and s: "attempt (sandbox (examplePair answers ''com.example.app'' 1234567890)) ''jws-data''
      = Inr (examplePayload ''com.example.app'')"
    by (simp_all add: attempt_examplePair answers_def acceptsOnly_def examplePayload_object)
  have bid: "(case app_bundleId exampleApp of Some b' \<Rightarrow> Some b'
      | None \<Rightarrow> extractBundleIdFromSignedPayload (exampleRuntime answers) ''jws-data'')
      = Some ''com.example.app''"
    by (simp add: exampleApp_bundle)
  have nonempty: "''com.example.app'' \<noteq> []"
    by simp
  have selected:
    "attempt (production (examplePair answers ''com.example.app'' 1234567890)) ''jws-data'' =
       Inr (examplePayload ''com.example.app'') \<and>
     sandbox (examplePair answers ''com.example.app'' 1234567890) =
       production (examplePair answers ''com.example.app'' 1234567890) \<or>
     (\<exists>e. attempt (production (examplePair answers ''com.example.app'' 1234567890)) ''jws-data'' =
            Inl e) \<and>
     attempt (sandbox (examplePair answers ''com.example.app'' 1234567890)) ''jws-data'' =
       Inr (examplePayload ''com.example.app'') \<and>
     sandbox (examplePair answers ''com.example.app'' 1234567890) =
       sandbox (examplePair answers ''com.example.app'' 1234567890)"
    using p s by simp
  have sti: "None = optionalString (Option.bind (dataObject (examplePayload ''com.example.app''))
      (\<lambda>d. getProp d ''signedTransactionInfo''))"
    by (simp add: examplePayload_def dataObject_def optionalString_def)
  note T = production_then_sandbox
    [OF twoApps_apps passOver_firstApp [of SANDBOX_ENV "examplePayload ''com.example.app''",
          folded answers_def]
        bid nonempty getVerifiers_exampleApp selected sti]
  have uuid: "getProp (examplePayload ''com.example.app'') ''notificationUUID'' =
      Some (JStr ''uuid-1'')"
    and type: "getProp (examplePayload ''com.example.app'') ''notificationType'' =
      Some (JStr ''SUBSCRIBED'')"
    and subtype: "optionalString (getProp (examplePayload ''com.example.app'') ''subtype'') = None"
    and env: "optionalNonEmptyString (getProp (examplePayload ''com.example.app'') ''environment'')
      = None"
      "optionalNonEmptyString (Option.bind (dataObject (examplePayload ''com.example.app''))
         (\<lambda>d. getProp d ''environment'')) = Some ''Sandbox''"
    by (simp_all add: examplePayload_def optionalString_def optionalNonEmptyString_def
        dataObject_def trim_plain)
  have absent: "\<not> truthyString None"
    by (simp add: truthyString_def)
  from T [THEN conjunct1]
  have first: "fst (tryVerifiers
      [production (examplePair answers ''com.example.app'' 1234567890),
       sandbox (examplePair answers ''com.example.app'' 1234567890)]
      ''jws-data'' (Some (Error ''VerificationException''))) =
     Some (examplePayload ''com.example.app'',
           sandbox (examplePair answers ''com.example.app'' 1234567890))" .
  from T [THEN conjunct2, THEN conjunct1, rule_format,
      of "''uuid-1''" "''SUBSCRIBED''" "''com.example.app''" None]
    uuid type examplePayload_bundle(2) exampleApp_bundle absent
  have "verifyAppleNotification (exampleRuntime answers) ''jws-data'' twoApps (freshWorld 0) =
     (Inr \<lparr>vn_notificationUUID = ''uuid-1'',
           vn_notificationType = ''SUBSCRIBED'',
           vn_subtype = None,
           vn_environment = ''Sandbox'',
           vn_bundleId = ''com.example.app'',
           vn_appAppleId = 1234567890,
           vn_pushoverUserKey = ''pushover-user-key'',
           vn_pushoverDevice = None,
           vn_signedTransactionInfo = None,
           vn_transactionInfo = None\<rparr>,
      resolvedWorld answers)"
    by (simp add: subtype env exampleApp_def createConfig_def)
  with twoApps_apps p s first show ?thesis unfolding answers_def by blast
qed


end
